theory Spec2Isabelle
  imports Complex_Main
begin

section \<open>Python values used by the dialogue pipeline\<close>

text \<open>
  The development embeds the dialogue-generation pipeline of the backend
  (\<^verbatim>\<open>app/ai/ai_manager.py\<close>, \<^verbatim>\<open>app/ai/local_llm.py\<close>,
  \<^verbatim>\<open>app/ai/validation.py\<close>) as HOL functions.

  Conventions. Python \<^verbatim>\<open>float\<close> values are modelled by \<^typ>\<open>real\<close>: every
  comparison the code makes is against a decimal literal, and no property below depends
  on rounding. Python \<^verbatim>\<open>str\<close> values are modelled by \<^typ>\<open>string\<close>: an ASCII
  character stands as itself and any other code point as the bytes of its UTF-8 form, so
  that \<^verbatim>\<open>len\<close>, \<^verbatim>\<open>lower\<close> and \<^verbatim>\<open>split\<close> are exact on ASCII text.
  Library functions whose algorithm is not part of the repository (the regular-expression
  engine, MD5, the \<^verbatim>\<open>.1f\<close> float formatter) are parameters of the model.
  Everything the outside world decides during one call (whether a Redis command raises,
  what an inference backend returns, the value drawn by \<^verbatim>\<open>random\<close>, the clock) is
  an explicit input.
\<close>

datatype error =
    TypeError string
  | AttributeError string
  | RedisError string
  | BackendError string
  | UnicodeEncodeError string
  | RecursionError

subsection \<open>Strings\<close>

definition py_lower_char :: "char \<Rightarrow> char" where
  "py_lower_char c =
     (case map_of (zip ''ABCDEFGHIJKLMNOPQRSTUVWXYZ'' ''abcdefghijklmnopqrstuvwxyz'') c of
        Some l \<Rightarrow> l
      | None \<Rightarrow> c)"

definition py_lower :: "string \<Rightarrow> string" where
  "py_lower s = map py_lower_char s"

definition py_isspace :: "char \<Rightarrow> bool" where
  "py_isspace c =
     (c \<in> set [CHR '' '', CHR 0x09, CHR 0x0A, CHR 0x0B, CHR 0x0C, CHR 0x0D,
                CHR 0x1C, CHR 0x1D, CHR 0x1E, CHR 0x1F])"

text \<open>\<^verbatim>\<open>s.split()\<close>: the maximal runs of non-whitespace characters, in order.\<close>

fun split_from :: "string \<Rightarrow> string \<Rightarrow> string list" where
  "split_from w [] = (if w = [] then [] else [w])"
| "split_from w (c # cs) =
     (if py_isspace c
      then (if w = [] then split_from [] cs else w # split_from [] cs)
      else split_from (w @ [c]) cs)"

definition py_split :: "string \<Rightarrow> string list" where
  "py_split s = split_from [] s"

text \<open>\<^verbatim>\<open>s.split(".")\<close>: the pieces between the separator, empty pieces kept.\<close>

fun split_on_from :: "char \<Rightarrow> string \<Rightarrow> string \<Rightarrow> string list" where
  "split_on_from sep w [] = [w]"
| "split_on_from sep w (c # cs) =
     (if c = sep then w # split_on_from sep [] cs else split_on_from sep (w @ [c]) cs)"

definition py_split_on :: "char \<Rightarrow> string \<Rightarrow> string list" where
  "py_split_on sep s = split_on_from sep [] s"

definition py_strip :: "string \<Rightarrow> string" where
  "py_strip s = rev (dropWhile py_isspace (rev (dropWhile py_isspace s)))"

text \<open>\<^verbatim>\<open>sub in s\<close> for strings: \<open>sub\<close> occurs as a contiguous block of \<open>s\<close>.\<close>

fun py_in :: "string \<Rightarrow> string \<Rightarrow> bool" where
  "py_in sub [] = (sub = [])"
| "py_in sub (c # cs) = (take (length sub) (c # cs) = sub \<or> py_in sub cs)"

text \<open>
  \<^verbatim>\<open>s.encode()\<close>. A Python \<^verbatim>\<open>str\<close> can hold a surrogate code point (U+D800
  to U+DFFF), which has no UTF-8 form: it stands here as the three bytes the UTF-8 scheme
  would give it, \<open>ED\<close>, then \<open>A0\<close> to \<open>BF\<close>, then a continuation byte. On a
  string with a surrogate \<^verbatim>\<open>encode\<close> raises \<^verbatim>\<open>UnicodeEncodeError\<close>; on any
  other string it returns the bytes.
\<close>

fun has_surrogate :: "string \<Rightarrow> bool" where
  "has_surrogate [] = False"
| "has_surrogate [a] = False"
| "has_surrogate (a # b # cs) =
     (a = CHR 0xED \<and> (0xA0::nat) \<le> of_char b \<and> (of_char b :: nat) \<le> 0xBF
      \<or> has_surrogate (b # cs))"

definition py_encode :: "string \<Rightarrow> error + string" where
  "py_encode s =
     (if has_surrogate s then Inl (UnicodeEncodeError ''surrogates not allowed'') else Inr s)"

text \<open>\<^verbatim>\<open>str(n)\<close> for a non-negative integer.\<close>

fun str_nat :: "nat \<Rightarrow> string" where
  "str_nat n =
     (if n < 10 then [''0123456789'' ! n]
      else str_nat (n div 10) @ [''0123456789'' ! (n mod 10)])"

declare str_nat.simps [simp del]

text \<open>
  \<^verbatim>\<open>random.choice(xs)\<close> on a non-empty list: the draw is an input, and every element
  of \<open>xs\<close> is the choice of some draw.
\<close>

definition random_choice :: "nat \<Rightarrow> 'a list \<Rightarrow> 'a" where
  "random_choice rnd xs = xs ! (rnd mod length xs)"

subsection \<open>The data model (\<^verbatim>\<open>app/game/models.py\<close>)\<close>

record DialogueResponse =
  dr_text :: string
  dr_emotion :: string
  dr_actions :: "string list"
  dr_relationship_change :: real
  dr_triggers_battle :: bool
  dr_shop_items :: "string list option"

record NPCInteractionContext =
  ctx_player_id :: string
  ctx_npc_id :: string
  interaction_type :: string
  player_position :: "int \<times> int"
  player_party_summary :: string
  recent_achievements :: "string list"
  relationship_level :: real
  time_of_day :: string

record PersonalityTraits =
  curiosity :: real
  patience :: real
  verbosity :: real
  humor :: real
  trust_threshold :: real
  friendliness :: real
  competitiveness :: real
  knowledge_sharing :: real

record MemoryItem =
  mem_id :: string
  mem_npc_id :: string
  mem_player_id :: string
  content :: string
  importance :: real
  timestamp :: nat
  tags :: "string list"
  emotional_context :: string

text \<open>
  \<^verbatim>\<open>DialogueResponse(text=t, emotion=e, relationship_change=c)\<close>: the other fields
  take the defaults of the class.
\<close>

definition mk_response :: "string \<Rightarrow> string \<Rightarrow> real \<Rightarrow> DialogueResponse" where
  "mk_response t e c =
     \<lparr>dr_text = t, dr_emotion = e, dr_actions = [], dr_relationship_change = c,
      dr_triggers_battle = False, dr_shop_items = None\<rparr>"

text \<open>
  The emotions the dialogue prompt allows
  (\<^verbatim>\<open>"emotion": "neutral|happy|excited|sad|angry|confused|thoughtful"\<close>).
\<close>

definition allowed_emotions :: "string list" where
  "allowed_emotions =
     [''neutral'', ''happy'', ''excited'', ''sad'', ''angry'', ''confused'', ''thoughtful'']"

section \<open>The fallback synthesizers\<close>

definition greeting_responses :: "string list" where
  "greeting_responses =
     [''Hello there! How are you doing?'',
      ''Hey! Nice to see you!'',
      ''Good to meet you, trainer!'',
      ''Welcome! How can I help you?'']"

definition fallback_responses :: "(string \<times> string list) list" where
  "fallback_responses =
     [(''greeting'', greeting_responses),
      (''battle'',
       [''Ready for a battle?'',
        ''Let's see how strong your monsters are!'',
        ''I've been training hard lately!'',
        ''This should be fun!'']),
      (''shop'',
       [''Take a look at what I have for sale!'',
        ''I've got some great items here!'',
        ''Need any supplies?'',
        ''Check out my wares!''])]"

text \<open>
  \<^verbatim>\<open>AIManager._generate_fallback_dialogue\<close>. An interaction type that is not a key
  of the table is replaced by \<^verbatim>\<open>"greeting"\<close>.
\<close>

definition generate_fallback_dialogue ::
  "nat \<Rightarrow> NPCInteractionContext \<Rightarrow> PersonalityTraits \<Rightarrow> DialogueResponse" where
  "generate_fallback_dialogue rnd ctx personality =
     (let responses =
            (case map_of fallback_responses (interaction_type ctx) of
               Some rs \<Rightarrow> rs
             | None \<Rightarrow> greeting_responses);
          selected = random_choice rnd responses;
          selected' =
            (if verbosity personality > 0.7
             then selected @ '' How has your journey been going?''
             else selected);
          emotion = (if friendliness personality > 0.5 then ''happy'' else ''neutral'')
      in mk_response selected' emotion 0.1)"

text \<open>\<^verbatim>\<open>LocalLLMManager._create_fallback_response\<close>.\<close>

definition create_fallback_response ::
  "nat \<Rightarrow> NPCInteractionContext \<Rightarrow> PersonalityTraits \<Rightarrow> DialogueResponse" where
  "create_fallback_response rnd ctx personality =
     (let responses =
            (if relationship_level ctx > 0.5
             then [''Good to see you again!'', ''How have you been?'',
                   ''Nice to chat with you!'']
             else [''Hello there!'', ''How can I help you?'', ''Welcome to our town!'']);
          t = random_choice rnd responses;
          t' = (if verbosity personality > 0.7 then t @ '' How's your adventure going?''
                else t)
      in mk_response t'
           (if friendliness personality > 0.5 then ''happy'' else ''neutral'') 0.1)"

section \<open>The response validator (\<^verbatim>\<open>app/ai/validation.py\<close>)\<close>

datatype ValidationSeverity = INFO | WARNING | ERROR | CRITICAL

record ValidationResult =
  is_valid :: bool
  severity :: ValidationSeverity
  issues :: "string list"
  score :: real
  suggested_fixes :: "string list"

record CanonFact =
  cf_id :: string
  cf_category :: string
  cf_fact :: string
  cf_keywords :: "string list"
  cf_importance :: real

text \<open>
  The regular expressions of the validator, named by where the source declares them:
  \<open>Contradiction i\<close> is entry \<open>i\<close> of \<^verbatim>\<open>contradiction_patterns\<close>,
  \<open>Forbidden c i\<close> entry \<open>i\<close> of \<^verbatim>\<open>forbidden_patterns[c]\<close>, \<open>Friendly\<close> and
  \<open>Formal\<close> the single entries of \<^verbatim>\<open>friendly_patterns\<close> and
  \<^verbatim>\<open>formal_patterns\<close>, and \<open>Meta i\<close> entry \<open>i\<close> of \<^verbatim>\<open>meta_patterns\<close>.
  \<^verbatim>\<open>re.search(pattern, text)\<close> is the parameter \<open>re_search\<close> of the checks.
\<close>

datatype pattern =
    Contradiction nat
  | Forbidden string nat
  | Friendly
  | Formal
  | Meta nat

type_synonym regex_engine = "pattern \<Rightarrow> string \<Rightarrow> bool"

definition canon_facts :: "CanonFact list" where
  "canon_facts =
    [\<lparr>cf_id = ''world_setting'', cf_category = ''lore'',
      cf_fact = ''Tuxemon takes place in a world where monsters can be tamed and trained by humans'',
      cf_keywords = [''world'', ''setting'', ''monsters'', ''tamed'', ''trained'', ''humans''],
      cf_importance = 1.0\<rparr>,
     \<lparr>cf_id = ''monster_mechanics'', cf_category = ''mechanics'',
      cf_fact = ''Monsters have elements, stats, and can learn techniques in battle'',
      cf_keywords = [''monsters'', ''elements'', ''stats'', ''techniques'', ''battle'', ''combat''],
      cf_importance = 0.9\<rparr>,
     \<lparr>cf_id = ''capture_system'', cf_category = ''mechanics'',
      cf_fact = ''Wild monsters can be captured using capture devices and items'',
      cf_keywords = [''capture'', ''wild'', ''monsters'', ''devices'', ''items'', ''catch''],
      cf_importance = 0.8\<rparr>,
     \<lparr>cf_id = ''trainer_culture'', cf_category = ''lore'',
      cf_fact = ''People who train monsters are called trainers and often travel to improve their skills'',
      cf_keywords = [''trainers'', ''travel'', ''improve'', ''skills'', ''training'', ''journey''],
      cf_importance = 0.7\<rparr>,
     \<lparr>cf_id = ''no_violence_humans'', cf_category = ''constraints'',
      cf_fact = ''Tuxemon is family-friendly: no violence between humans, no death, no inappropriate content'',
      cf_keywords = [''violence'', ''death'', ''inappropriate'', ''family-friendly'', ''safe''],
      cf_importance = 1.0\<rparr>,
     \<lparr>cf_id = ''healing_centers'', cf_category = ''lore'',
      cf_fact = ''Towns have healing centers where trainers can restore their monsters' health'',
      cf_keywords = [''healing'', ''centers'', ''towns'', ''restore'', ''health'', ''monsters''],
      cf_importance = 0.6\<rparr>,
     \<lparr>cf_id = ''starting_town'', cf_category = ''locations'',
      cf_fact = ''Players begin their journey in a peaceful starting town with friendly NPCs'',
      cf_keywords = [''starting'', ''town'', ''peaceful'', ''friendly'', ''begin'', ''journey''],
      cf_importance = 0.8\<rparr>,
     \<lparr>cf_id = ''no_meta_references'', cf_category = ''constraints'',
      cf_fact = ''NPCs should never reference being AI, being in a game, or break the fourth wall'',
      cf_keywords = [''AI'', ''game'', ''player'', ''character'', ''fourth wall'', ''meta''],
      cf_importance = 1.0\<rparr>,
     \<lparr>cf_id = ''consistent_personality'', cf_category = ''constraints'',
      cf_fact = ''NPCs must maintain consistent personality traits and behavior patterns'',
      cf_keywords = [''personality'', ''consistent'', ''behavior'', ''traits'', ''character''],
      cf_importance = 0.9\<rparr>,
     \<lparr>cf_id = ''appropriate_knowledge'', cf_category = ''constraints'',
      cf_fact = ''NPCs should only know information their character would realistically know'',
      cf_keywords = [''knowledge'', ''realistic'', ''character'', ''information'', ''know''],
      cf_importance = 0.8\<rparr>]"

definition contradiction_patterns :: "pattern list" where
  "contradiction_patterns = map Contradiction [0 ..< 4]"

text \<open>
  One iteration of the loop of \<^verbatim>\<open>_check_canon_violations\<close>: a fact of category
  \<^verbatim>\<open>constraints\<close> is skipped; a fact one of whose keywords occurs in the lowered
  text costs a factor 0.7 once, when some contradiction pattern matches.
\<close>

definition canon_fact_step ::
  "regex_engine \<Rightarrow> string \<Rightarrow> string list \<times> real \<Rightarrow> CanonFact \<Rightarrow> string list \<times> real" where
  "canon_fact_step re_search text_lower acc f =
     (if cf_category f = ''constraints'' then acc
      else if filter (\<lambda>kw. py_in kw text_lower) (cf_keywords f) \<noteq> []
              \<and> list_ex (\<lambda>p. re_search p text_lower) contradiction_patterns
      then (fst acc @ [''Potential canon contradiction: '' @ cf_fact f], snd acc * 0.7)
      else acc)"

definition check_canon_violations :: "regex_engine \<Rightarrow> string \<Rightarrow> string list \<times> real" where
  "check_canon_violations re_search t =
     foldl (canon_fact_step re_search (py_lower t)) ([], 1.0) canon_facts"

definition forbidden_patterns :: "(string \<times> pattern list) list" where
  "forbidden_patterns =
     [(''violence'', map (Forbidden ''violence'') [0 ..< 2]),
      (''inappropriate'', map (Forbidden ''inappropriate'') [0 ..< 3]),
      (''real_world'', map (Forbidden ''real_world'') [0 ..< 3]),
      (''meta_gaming'', map (Forbidden ''meta_gaming'') [0 ..< 3])]"

definition forbidden_step ::
  "regex_engine \<Rightarrow> string \<Rightarrow> string list \<times> real \<Rightarrow> string \<times> pattern list
     \<Rightarrow> string list \<times> real" where
  "forbidden_step re_search text_lower acc cp =
     (if list_ex (\<lambda>p. re_search p text_lower) (snd cp)
      then (fst acc @ [''Contains forbidden '' @ fst cp @ '' content''], snd acc * 0.5)
      else acc)"

definition check_forbidden_content :: "regex_engine \<Rightarrow> string \<Rightarrow> string list \<times> real" where
  "check_forbidden_content re_search t =
     foldl (forbidden_step re_search (py_lower t)) ([], 1.0) forbidden_patterns"

text \<open>
  \<^verbatim>\<open>_check_tone_consistency\<close>. The personality is optional for the validator; its
  caller always passes one.
\<close>

definition check_tone_consistency ::
  "regex_engine \<Rightarrow> DialogueResponse \<Rightarrow> NPCInteractionContext \<Rightarrow> PersonalityTraits option
     \<Rightarrow> string list \<times> real" where
  "check_tone_consistency re_search dialogue ctx personality_traits =
     (let text_lower = py_lower (dr_text dialogue);
          rel = relationship_level ctx;
          a1 = (if rel < 0.2
                then (if re_search Friendly text_lower
                      then ([''Too familiar tone for low relationship level''], 0.9)
                      else ([], 1.0))
                else if rel > 0.8
                then (if re_search Formal text_lower
                      then ([''Too formal tone for high relationship level''], 0.9)
                      else ([], 1.0))
                else ([], 1.0))
      in case personality_traits of
           None \<Rightarrow> a1
         | Some traits \<Rightarrow>
             (let word_count = length (py_split (dr_text dialogue));
                  a2 = (if verbosity traits < 0.3 \<and> word_count > 50
                        then (fst a1 @ [''Too verbose for quiet personality''], snd a1 * 0.9)
                        else if verbosity traits > 0.7 \<and> word_count < 10
                        then (fst a1 @ [''Too brief for talkative personality''], snd a1 * 0.9)
                        else a1)
              in if friendliness traits < 0.3 \<and> dr_emotion dialogue \<in> set [''happy'', ''excited'']
                 then (fst a2 @ [''Too positive emotion for reserved personality''], snd a2 * 0.9)
                 else if friendliness traits > 0.7 \<and> dr_emotion dialogue \<in> set [''angry'', ''sad'']
                 then (fst a2 @ [''Negative emotion unusual for friendly personality''],
                       snd a2 * 0.95)
                 else a2))"

definition meta_patterns :: "pattern list" where
  "meta_patterns = map Meta [0 ..< 7]"

definition check_meta_references :: "regex_engine \<Rightarrow> string \<Rightarrow> string list \<times> real" where
  "check_meta_references re_search t =
     (if list_ex (\<lambda>p. re_search p (py_lower t)) meta_patterns
      then ([''Contains meta-gaming or fourth wall breaking references''], 0.3)
      else ([], 1.0))"

text \<open>
  The seven characters of \<^verbatim>\<open>problematic_chars\<close> (euro, pound, yen, copyright,
  registered, trade mark, section sign) lie outside ASCII; they are given by their
  UTF-8 bytes and never occur in ASCII text.
\<close>

definition problematic_chars :: "string list" where
  "problematic_chars =
     [[CHR 0xE2, CHR 0x82, CHR 0xAC], [CHR 0xC2, CHR 0xA3], [CHR 0xC2, CHR 0xA5],
      [CHR 0xC2, CHR 0xA9], [CHR 0xC2, CHR 0xAE], [CHR 0xE2, CHR 0x84, CHR 0xA2],
      [CHR 0xC2, CHR 0xA7]]"

definition check_mobile_constraints :: "string \<Rightarrow> string list \<times> real" where
  "check_mobile_constraints t =
     (let word_count = length (py_split t);
          a1 = (if word_count > 100
                then ([''Dialogue too long for mobile ('' @ str_nat word_count
                       @ '' words, max 100)''], 0.8)
                else ([], 1.0));
          a2 = (if list_ex (\<lambda>sentence. length (py_strip sentence) > 200) (py_split_on CHR ''.'' t)
                then (fst a1 @ [''Contains very long sentences that may be hard to read on mobile''],
                      snd a1 * 0.9)
                else a1)
      in if list_ex (\<lambda>ch. py_in ch t) problematic_chars
         then (fst a2 @ [''Contains special characters that may not display properly''],
               snd a2 * 0.95)
         else a2)"

definition suggestion_for :: "string \<Rightarrow> string option" where
  "suggestion_for issue =
     (let l = py_lower issue
      in if py_in ''too long'' l then Some ''Shorten the dialogue to under 100 words''
         else if py_in ''forbidden'' l
         then Some ''Remove inappropriate content and keep dialogue family-friendly''
         else if py_in ''meta'' l \<or> py_in ''fourth wall'' l
         then Some ''Stay in character and avoid breaking immersion''
         else if py_in ''tone'' l
         then Some ''Adjust tone to match NPC personality and relationship level''
         else if py_in ''canon'' l
         then Some ''Ensure dialogue aligns with established game lore and mechanics''
         else None)"

definition generate_suggestions :: "string list \<Rightarrow> string list" where
  "generate_suggestions iss =
     (let suggestions = List.map_filter suggestion_for iss
      in if suggestions = [] then [''Minor improvements could enhance dialogue quality'']
         else suggestions)"

text \<open>\<^verbatim>\<open>DialogueValidator.validate_dialogue\<close>.\<close>

definition validate_dialogue ::
  "regex_engine \<Rightarrow> DialogueResponse \<Rightarrow> NPCInteractionContext \<Rightarrow> PersonalityTraits option
     \<Rightarrow> ValidationResult" where
  "validate_dialogue re_search dialogue ctx npc_personality_traits =
     (let canon = check_canon_violations re_search (dr_text dialogue);
          forbidden = check_forbidden_content re_search (dr_text dialogue);
          tone = check_tone_consistency re_search dialogue ctx npc_personality_traits;
          meta = check_meta_references re_search (dr_text dialogue);
          mobile = check_mobile_constraints (dr_text dialogue);
          sc = 1.0 * snd canon * snd forbidden * snd tone * snd meta * snd mobile;
          iss = fst canon @ fst forbidden @ fst tone @ fst meta @ fst mobile;
          sev = (if sc < 0.5 then CRITICAL
                 else if sc < 0.7 then ERROR
                 else if sc < 0.9 then WARNING
                 else INFO)
      in \<lparr>is_valid = (sc \<ge> 0.7 \<and> sev \<noteq> CRITICAL),
          severity = sev,
          issues = iss,
          score = sc,
          suggested_fixes = generate_suggestions iss\<rparr>)"

section \<open>The budget ledger (\<^verbatim>\<open>DailyCostTracker\<close>) and the Redis store\<close>

text \<open>
  A calendar day is its day number; \<open>today - i\<close> is the day \<open>i\<close> days ago. The store
  holds the cost hash \<^verbatim>\<open>ai_cost_tracker\<close> (day to accumulated cost), the daily and
  hourly request counters, the per-day usage hash, and the dialogue cache, each cache
  entry with the time at which it expires (\<^verbatim>\<open>SETEX\<close>). The expiry of the ledger
  keys (a week, two days for hourly counters) is not modelled.
\<close>

type_synonym date = int

record usage_stats =
  us_total_cost :: real
  us_total_requests :: int
  us_requests_by_model :: "string \<Rightarrow> int"
  us_total_tokens :: int
  us_total_response_time_ms :: int

record redis_store =
  cost_tracker :: "date \<Rightarrow> real option"
  request_count_daily :: "date \<Rightarrow> int option"
  request_count_hourly :: "date \<times> nat \<Rightarrow> int option"
  usage :: "date \<Rightarrow> usage_stats"
  dialogue_cache :: "string \<Rightarrow> (DialogueResponse \<times> nat) option"

definition empty_usage :: usage_stats where
  "empty_usage =
     \<lparr>us_total_cost = 0, us_total_requests = 0, us_requests_by_model = (\<lambda>_. 0),
      us_total_tokens = 0, us_total_response_time_ms = 0\<rparr>"

definition empty_store :: redis_store where
  "empty_store =
     \<lparr>cost_tracker = (\<lambda>_. None), request_count_daily = (\<lambda>_. None),
      request_count_hourly = (\<lambda>_. None), usage = (\<lambda>_. empty_usage),
      dialogue_cache = (\<lambda>_. None)\<rparr>"

text \<open>The part of the store the ledger owns.\<close>

definition ledger ::
  "redis_store \<Rightarrow> (date \<Rightarrow> real option) \<times> (date \<Rightarrow> int option)
     \<times> (date \<times> nat \<Rightarrow> int option) \<times> (date \<Rightarrow> usage_stats)" where
  "ledger st = (cost_tracker st, request_count_daily st, request_count_hourly st, usage st)"

text \<open>
  \<^verbatim>\<open>get_redis\<close> of \<^verbatim>\<open>app/database.py\<close> returns the module-level client and has
  no failing path; a missing client (\<^verbatim>\<open>None\<close>) or a lost connection shows when a
  command is issued, inside the caller's \<^verbatim>\<open>try\<close>.
\<close>

definition get_redis :: "'c \<Rightarrow> error + 'c" where
  "get_redis redis_client = Inr redis_client"

text \<open>
  \<^verbatim>\<open>DailyCostTracker.can_make_request\<close>. \<open>hget_raises\<close> says whether reading the
  cost hash raises (also: the stored value does not parse as a float).
\<close>

definition can_make_request :: "real \<Rightarrow> bool \<Rightarrow> date \<Rightarrow> redis_store \<Rightarrow> error + bool" where
  "can_make_request max_cost hget_raises today st =
     (case get_redis st of
        Inl e \<Rightarrow> Inl e
      | Inr redis \<Rightarrow>
          (if hget_raises then Inr True
           else case cost_tracker redis today of
                  None \<Rightarrow> Inr True
                | Some current_cost \<Rightarrow> Inr (current_cost < max_cost)))"

text \<open>The Redis commands \<^verbatim>\<open>record_request\<close> issues, in the order it issues them.\<close>

datatype redis_cmd =
    HIncrByFloat_cost date real
  | Incr_daily date
  | Incr_hourly date nat
  | HIncrByFloat_total_cost date real
  | HIncrBy_total_requests date
  | HIncrBy_requests_model date string
  | HIncrBy_total_tokens date int
  | HIncrBy_total_response_time date int
  | Expire
  | HGet_cost date
  | Get_daily date

fun exec_cmd :: "redis_store \<Rightarrow> redis_cmd \<Rightarrow> redis_store" where
  "exec_cmd st (HIncrByFloat_cost d c) =
     st\<lparr>cost_tracker := (cost_tracker st)
           (d := Some ((case cost_tracker st d of None \<Rightarrow> 0 | Some x \<Rightarrow> x) + c))\<rparr>"
| "exec_cmd st (Incr_daily d) =
     st\<lparr>request_count_daily := (request_count_daily st)
           (d := Some ((case request_count_daily st d of None \<Rightarrow> 0 | Some n \<Rightarrow> n) + 1))\<rparr>"
| "exec_cmd st (Incr_hourly d h) =
     st\<lparr>request_count_hourly := (request_count_hourly st)
           ((d, h) := Some ((case request_count_hourly st (d, h) of None \<Rightarrow> 0 | Some n \<Rightarrow> n) + 1))\<rparr>"
| "exec_cmd st (HIncrByFloat_total_cost d c) =
     st\<lparr>usage := (usage st)(d := (usage st d)\<lparr>us_total_cost := us_total_cost (usage st d) + c\<rparr>)\<rparr>"
| "exec_cmd st (HIncrBy_total_requests d) =
     st\<lparr>usage := (usage st)
           (d := (usage st d)\<lparr>us_total_requests := us_total_requests (usage st d) + 1\<rparr>)\<rparr>"
| "exec_cmd st (HIncrBy_requests_model d m) =
     st\<lparr>usage := (usage st)
           (d := (usage st d)\<lparr>us_requests_by_model :=
                   (us_requests_by_model (usage st d))
                     (m := us_requests_by_model (usage st d) m + 1)\<rparr>)\<rparr>"
| "exec_cmd st (HIncrBy_total_tokens d n) =
     st\<lparr>usage := (usage st)
           (d := (usage st d)\<lparr>us_total_tokens := us_total_tokens (usage st d) + n\<rparr>)\<rparr>"
| "exec_cmd st (HIncrBy_total_response_time d n) =
     st\<lparr>usage := (usage st)
           (d := (usage st d)\<lparr>us_total_response_time_ms :=
                   us_total_response_time_ms (usage st d) + n\<rparr>)\<rparr>"
| "exec_cmd st Expire = st"
| "exec_cmd st (HGet_cost d) = st"
| "exec_cmd st (Get_daily d) = st"

text \<open>
  Running the commands of a \<^verbatim>\<open>try\<close> block in order. \<open>fail_at = Some k\<close> makes the
  command at position \<open>k\<close> raise: the commands before it have taken effect, the rest
  are skipped. The flag returned says whether the block ran to its end.
\<close>

fun run_cmds :: "nat option \<Rightarrow> redis_store \<Rightarrow> redis_cmd list \<Rightarrow> redis_store \<times> bool" where
  "run_cmds fail_at st [] = (st, True)"
| "run_cmds fail_at st (c # cs) =
     (if fail_at = Some 0 then (st, False)
      else run_cmds (map_option (\<lambda>k. k - 1) fail_at) (exec_cmd st c) cs)"

definition record_request_cmds ::
  "date \<Rightarrow> nat \<Rightarrow> real \<Rightarrow> string \<Rightarrow> int \<Rightarrow> int \<Rightarrow> redis_cmd list" where
  "record_request_cmds today hour estimated_cost model_used tokens_used response_time_ms =
     [HIncrByFloat_cost today estimated_cost,
      Incr_daily today,
      Incr_hourly today hour,
      HIncrByFloat_total_cost today estimated_cost,
      HIncrBy_total_requests today,
      HIncrBy_requests_model today model_used]
     @ (if tokens_used > 0 then [HIncrBy_total_tokens today tokens_used] else [])
     @ (if response_time_ms > 0 then [HIncrBy_total_response_time today response_time_ms] else [])
     @ [Expire, Expire, Expire, Expire, HGet_cost today, Get_daily today]"

text \<open>
  \<^verbatim>\<open>DailyCostTracker.record_request\<close>: the whole body is one \<^verbatim>\<open>try\<close> whose
  handler logs the error and returns.
\<close>

definition record_request ::
  "nat option \<Rightarrow> date \<Rightarrow> nat \<Rightarrow> redis_store \<Rightarrow> real \<Rightarrow> string \<Rightarrow> int \<Rightarrow> int
     \<Rightarrow> redis_store \<times> (error + unit)" where
  "record_request fail_at today hour st estimated_cost model_used tokens_used response_time_ms =
     (case get_redis st of
        Inl e \<Rightarrow> (st, Inl e)
      | Inr redis \<Rightarrow>
          (case run_cmds fail_at redis
                  (record_request_cmds today hour estimated_cost model_used tokens_used
                     response_time_ms) of
             (st', completed) \<Rightarrow> (st', Inr ())))"

record daily_stats =
  ds_date :: date
  ds_total_cost :: real
  ds_total_requests :: int
  ds_avg_cost_per_request :: real
  ds_avg_response_time_ms :: real
  ds_budget_limit :: real
  ds_budget_remaining :: real
  ds_budget_utilization :: real
  ds_requests_claude :: int
  ds_requests_local :: int
  ds_total_tokens :: int
  ds_error :: bool

text \<open>
  \<^verbatim>\<open>DailyCostTracker.get_daily_stats\<close>. When a read raises, or the division by a
  zero budget limit raises, the handler returns the record with cost and requests 0.
\<close>

definition daily_stats_error :: "date \<Rightarrow> daily_stats" where
  "daily_stats_error d =
     \<lparr>ds_date = d, ds_total_cost = 0.0, ds_total_requests = 0, ds_avg_cost_per_request = 0,
      ds_avg_response_time_ms = 0, ds_budget_limit = 0, ds_budget_remaining = 0,
      ds_budget_utilization = 0, ds_requests_claude = 0, ds_requests_local = 0,
      ds_total_tokens = 0, ds_error = True\<rparr>"

definition get_daily_stats :: "real \<Rightarrow> (date \<Rightarrow> bool) \<Rightarrow> redis_store \<Rightarrow> date \<Rightarrow> daily_stats" where
  "get_daily_stats max_cost read_raises st d =
     (if read_raises d \<or> max_cost = 0 then daily_stats_error d
      else
        (let total_cost = (case cost_tracker st d of None \<Rightarrow> 0 | Some c \<Rightarrow> c);
             total_requests = (case request_count_daily st d of None \<Rightarrow> 0 | Some n \<Rightarrow> n);
             detailed = usage st d
         in \<lparr>ds_date = d,
             ds_total_cost = total_cost,
             ds_total_requests = total_requests,
             ds_avg_cost_per_request =
               (if total_requests > 0 then total_cost / real_of_int total_requests else 0),
             ds_avg_response_time_ms =
               (if total_requests > 0
                then real_of_int (us_total_response_time_ms detailed) / real_of_int total_requests
                else 0),
             ds_budget_limit = max_cost,
             ds_budget_remaining = max 0 (max_cost - total_cost),
             ds_budget_utilization = min 100 ((total_cost / max_cost) * 100),
             ds_requests_claude = us_requests_by_model detailed ''claude'',
             ds_requests_local = us_requests_by_model detailed ''local'',
             ds_total_tokens = us_total_tokens detailed,
             ds_error = False\<rparr>))"

record cost_projection =
  daily_avg :: real
  weekly_total :: "real option"
  monthly_projection :: real
  confidence :: string
  data_points :: "nat option"

definition last_week_costs :: "real \<Rightarrow> (date \<Rightarrow> bool) \<Rightarrow> redis_store \<Rightarrow> date \<Rightarrow> real list" where
  "last_week_costs max_cost read_raises st today =
     map (\<lambda>i. ds_total_cost (get_daily_stats max_cost read_raises st (today - int i))) [0 ..< 7]"

text \<open>
  \<^verbatim>\<open>DailyCostTracker.get_cost_projection\<close>. Dividing by the number of days with
  positive cost raises when there is none, and the handler answers with confidence
  \<^verbatim>\<open>"error"\<close>.
\<close>

definition get_cost_projection ::
  "real \<Rightarrow> (date \<Rightarrow> bool) \<Rightarrow> redis_store \<Rightarrow> date \<Rightarrow> cost_projection" where
  "get_cost_projection max_cost read_raises st today =
     (let costs = last_week_costs max_cost read_raises st today
      in if \<not> list_ex (\<lambda>c. c \<noteq> 0) costs
         then \<lparr>daily_avg = 0.0, weekly_total = None, monthly_projection = 0.0,
               confidence = ''low'', data_points = None\<rparr>
         else
           (let active_days = length (filter (\<lambda>c. c > 0) costs)
            in if active_days = 0
               then \<lparr>daily_avg = 0.0, weekly_total = None, monthly_projection = 0.0,
                     confidence = ''error'', data_points = None\<rparr>
               else
                 \<lparr>daily_avg = sum_list costs / real active_days,
                  weekly_total = Some (sum_list costs),
                  monthly_projection = (sum_list costs / real active_days) * 30,
                  confidence = (if active_days \<ge> 5 then ''high''
                                else if active_days \<ge> 3 then ''medium'' else ''low''),
                  data_points = Some active_days\<rparr>))"

section \<open>The inference backends and the router (\<^verbatim>\<open>app/ai/local_llm.py\<close>)\<close>

text \<open>
  The two backends the router chooses between: \<open>Local\<close> is a call of
  \<^verbatim>\<open>local_manager.generate_dialogue\<close>, \<open>Cloud\<close> a call of
  \<^verbatim>\<open>claude_manager.generate_dialogue\<close>.
\<close>

datatype backend = Local | Cloud

text \<open>What a call of the orchestrator does to the outside world, in the order it does it.\<close>

datatype event =
    CacheGet string
  | BudgetCheck
  | BackendCall backend
  | LedgerRecord string real
  | CacheSet string
  | MemoryStore
  | GossipCreate

text \<open>
  What the local model's side decides during one request: the \<^verbatim>\<open>enabled\<close> flag of
  its configuration, the answer of \<^verbatim>\<open>_health_check\<close> to the router and to the
  adapter, the outcome of the HTTP request with the parsing of its body (an exception,
  no usable text, or a parsed response), and the draw of \<^verbatim>\<open>random.choice\<close>.
\<close>

record local_env =
  le_enabled :: bool
  le_healthy :: bool
  le_healthy_adapter :: bool
  le_http :: "error + DialogueResponse option"
  le_rnd :: nat

text \<open>
  \<^verbatim>\<open>LocalLLMManager.generate_dialogue\<close>: it raises when the health check fails, and
  answers every later failure with its own canned response.
\<close>

definition local_generate_dialogue ::
  "local_env \<Rightarrow> NPCInteractionContext \<Rightarrow> PersonalityTraits \<Rightarrow> error + DialogueResponse" where
  "local_generate_dialogue le ctx personality =
     (if \<not> le_healthy_adapter le then Inl (BackendError ''Local LLM not available'')
      else case le_http le of
             Inl e \<Rightarrow> Inr (create_fallback_response (le_rnd le) ctx personality)
           | Inr None \<Rightarrow> Inr (create_fallback_response (le_rnd le) ctx personality)
           | Inr (Some parsed) \<Rightarrow> Inr parsed)"

text \<open>
  \<^verbatim>\<open>HybridLLMManager._should_use_local\<close>; \<open>ratio\<close> is
  \<^verbatim>\<open>self.use_local_ratio\<close> and \<open>draw\<close> the value of \<^verbatim>\<open>random.random()\<close>.
\<close>

definition should_use_local ::
  "real \<Rightarrow> real \<Rightarrow> NPCInteractionContext \<Rightarrow> PersonalityTraits \<Rightarrow> MemoryItem list \<Rightarrow> bool" where
  "should_use_local ratio draw ctx personality memories =
     (if relationship_level ctx > 0.8 then False
      else if length memories > 3 \<and> list_ex (\<lambda>m. importance m > 0.8) memories then False
      else if interaction_type ctx = ''battle'' then False
      else draw < ratio)"

definition generic_phrases :: "string list" where
  "generic_phrases =
     [''how can i help'', ''hello there'', ''how are you'', ''nice to see you'', ''welcome'']"

text \<open>\<^verbatim>\<open>HybridLLMManager._is_response_too_generic\<close>.\<close>

definition is_response_too_generic ::
  "DialogueResponse \<Rightarrow> MemoryItem list \<Rightarrow> NPCInteractionContext \<Rightarrow> bool" where
  "is_response_too_generic response memories ctx =
     (let memory_keywords =
            concat (map (\<lambda>m. filter (\<lambda>w. length w > 4) (py_split (py_lower (content m))))
                      (take 2 memories));
          response_words = py_split (py_lower (dr_text response));
          generic_count =
            length (filter (\<lambda>phrase. py_in phrase (py_lower (dr_text response))) generic_phrases)
      in if memories \<noteq> [] \<and> relationship_level ctx > 0.3
            \<and> \<not> list_ex (\<lambda>w. w \<in> set response_words) memory_keywords
            \<and> memory_keywords \<noteq> []
         then True
         else generic_count \<ge> 2 \<and> (memories \<noteq> [] \<or> relationship_level ctx > 0.2))"

text \<open>
  What the router's surroundings decide during one request: the local side, the draw of
  \<^verbatim>\<open>random.random()\<close>, and the outcome of the first, second, ... call of
  \<^verbatim>\<open>claude_manager.generate_dialogue\<close> (the manager handed to the constructor;
  \<^verbatim>\<open>AIManager.initialize\<close> hands over the orchestrator itself).
\<close>

record hybrid_env =
  he_local :: local_env
  he_draw :: real
  he_claude :: "nat \<Rightarrow> error + DialogueResponse"

text \<open>
  \<^verbatim>\<open>HybridLLMManager.generate_dialogue\<close>, with the backends it calls, in order.
  The call of the Cloud manager after a rejected local response stands inside the
  \<^verbatim>\<open>try\<close> block: when it raises, the handler is left by the call of the Cloud
  manager at the end of the function. The manager holds no reference to the ledger.
\<close>

definition hybrid_generate_dialogue ::
  "real \<Rightarrow> hybrid_env \<Rightarrow> NPCInteractionContext \<Rightarrow> PersonalityTraits \<Rightarrow> MemoryItem list \<Rightarrow> bool
     \<Rightarrow> backend list \<times> (error + DialogueResponse)" where
  "hybrid_generate_dialogue ratio he ctx personality memories force_claude =
     (let use_local =
            (\<not> force_claude \<and> le_enabled (he_local he) \<and> le_healthy (he_local he)
             \<and> should_use_local ratio (he_draw he) ctx personality memories)
      in if use_local
         then (case local_generate_dialogue (he_local he) ctx personality of
                 Inr response \<Rightarrow>
                   (if is_response_too_generic response memories ctx
                    then (case he_claude he 0 of
                            Inr r \<Rightarrow> ([Local, Cloud], Inr r)
                          | Inl e \<Rightarrow> ([Local, Cloud, Cloud], he_claude he 1))
                    else ([Local], Inr response))
               | Inl e \<Rightarrow> ([Local, Cloud], he_claude he 0))
         else ([Cloud], he_claude he 0))"

section \<open>The orchestrator (\<^verbatim>\<open>AIManager.generate_dialogue\<close>)\<close>

record library =
  lib_re_search :: regex_engine
  lib_md5_hexdigest :: "string \<Rightarrow> string"
  lib_format_1f :: "real \<Rightarrow> string"

record settings =
  ai_enabled :: bool
  ai_cache_ttl :: nat
  max_cost_per_day_usd :: real

text \<open>
  What the outside world decides during one call of the orchestrator: the clock, whether
  the cache read, the cache write and the ledger read raise, which command of the
  ledger write raises, the draw of \<^verbatim>\<open>random.choice\<close>, and the measured duration.
\<close>

record call_env =
  ce_now :: nat
  ce_today :: date
  ce_hour :: nat
  ce_cache_get_raises :: bool
  ce_cache_set_raises :: bool
  ce_budget_read_raises :: bool
  ce_record_fail_at :: "nat option"
  ce_rnd :: nat
  ce_elapsed_ms :: int

text \<open>
  \<^verbatim>\<open>AIManager._get_dialogue_cache_key\<close>:
  \<^verbatim>\<open>f"{npc_id}:{context.interaction_type}:{context.relationship_level:.1f}:{len(memories)}"\<close>
  encoded and hashed. The function has no handler: when \<^verbatim>\<open>content.encode()\<close>
  raises, so does the function.
\<close>

definition get_dialogue_cache_key ::
  "library \<Rightarrow> string \<Rightarrow> NPCInteractionContext \<Rightarrow> MemoryItem list \<Rightarrow> error + string" where
  "get_dialogue_cache_key lib npc_id ctx memories =
     (case py_encode (npc_id @ '':'' @ interaction_type ctx @ '':''
                      @ lib_format_1f lib (relationship_level ctx) @ '':''
                      @ str_nat (length memories)) of
        Inl e \<Rightarrow> Inl e
      | Inr encoded \<Rightarrow> Inr (''dialogue:'' @ lib_md5_hexdigest lib encoded))"

text \<open>
  \<^verbatim>\<open>_get_cached_dialogue\<close> and \<^verbatim>\<open>_cache_dialogue\<close>: both swallow every
  exception. An entry written at time \<open>t\<close> is readable before \<open>t + ttl\<close>.
\<close>

definition get_cached_dialogue ::
  "bool \<Rightarrow> nat \<Rightarrow> redis_store \<Rightarrow> string \<Rightarrow> DialogueResponse option" where
  "get_cached_dialogue raises now st cache_key =
     (if raises then None
      else case dialogue_cache st cache_key of
             None \<Rightarrow> None
           | Some (response, expiry) \<Rightarrow> (if now < expiry then Some response else None))"

definition cache_dialogue ::
  "bool \<Rightarrow> nat \<Rightarrow> nat \<Rightarrow> redis_store \<Rightarrow> string \<Rightarrow> DialogueResponse \<Rightarrow> redis_store" where
  "cache_dialogue raises now ttl st cache_key response =
     (if raises then st
      else st\<lparr>dialogue_cache := (dialogue_cache st)(cache_key := Some (response, now + ttl))\<rparr>)"

text \<open>
  The manager behind \<^verbatim>\<open>self.hybrid_manager\<close>: the names of the parameters its
  \<^verbatim>\<open>generate_dialogue\<close> declares, and what the method does once called.
\<close>

record hybrid_manager =
  hm_parameters :: "string list"
  hm_generate_dialogue ::
    "NPCInteractionContext \<Rightarrow> PersonalityTraits \<Rightarrow> MemoryItem list \<Rightarrow> bool
       \<Rightarrow> backend list \<times> (error + DialogueResponse)"

text \<open>
  The class \<^verbatim>\<open>HybridLLMManager\<close>: its method declares
  \<^verbatim>\<open>(self, npc_id, context, personality, memories, force_claude, emotional_influence)\<close>.
\<close>

definition HybridLLMManager :: "real \<Rightarrow> hybrid_env \<Rightarrow> hybrid_manager" where
  "HybridLLMManager ratio he =
     \<lparr>hm_parameters =
        [''npc_id'', ''context'', ''personality'', ''memories'', ''force_claude'',
         ''emotional_influence''],
      hm_generate_dialogue = hybrid_generate_dialogue ratio he\<rparr>"

text \<open>
  The orchestrator calls the method with the keyword arguments below. A Python call
  that passes a keyword the callee does not declare raises \<^verbatim>\<open>TypeError\<close> before
  the body runs.
\<close>

definition orchestrator_keywords :: "string list" where
  "orchestrator_keywords =
     [''npc_id'', ''context'', ''personality'', ''memories'', ''force_claude'',
      ''emotional_influence'', ''gossip_context'']"

definition call_hybrid_manager ::
  "hybrid_manager \<Rightarrow> NPCInteractionContext \<Rightarrow> PersonalityTraits \<Rightarrow> MemoryItem list \<Rightarrow> bool
     \<Rightarrow> backend list \<times> (error + DialogueResponse)" where
  "call_hybrid_manager hm ctx personality memories force_claude =
     (case filter (\<lambda>k. k \<notin> set (hm_parameters hm)) orchestrator_keywords of
        [] \<Rightarrow> hm_generate_dialogue hm ctx personality memories force_claude
      | k # _ \<Rightarrow> ([], Inl (TypeError k)))"

text \<open>Lines 88 to 90: an exhausted budget clears a requested \<^verbatim>\<open>force_claude\<close>.\<close>

definition effective_force_claude :: "bool \<Rightarrow> bool \<Rightarrow> bool" where
  "effective_force_claude can_use_claude force_claude =
     (if \<not> can_use_claude \<and> force_claude then False else force_claude)"

text \<open>
  The ledger entry of lines 160 to 178: a Cloud entry of 0.02 when the budget allows
  Cloud and the request was forced or the text is not the literal
  \<^verbatim>\<open>fallback_marker\<close>, a Local entry of 0.001 otherwise.
\<close>

definition record_generation ::
  "call_env \<Rightarrow> redis_store \<Rightarrow> bool \<Rightarrow> bool \<Rightarrow> DialogueResponse
     \<Rightarrow> (redis_store \<times> (error + unit)) \<times> event" where
  "record_generation ce st can_use_claude force_claude response =
     (let words = length (py_split (dr_text response))
      in if can_use_claude \<and> (force_claude \<or> dr_text response \<noteq> ''fallback_marker'')
         then (record_request (ce_record_fail_at ce) (ce_today ce) (ce_hour ce) st 0.02 ''claude''
                 \<lfloor>real words * 1.3\<rfloor> (ce_elapsed_ms ce),
               LedgerRecord ''claude'' 0.02)
         else (record_request (ce_record_fail_at ce) (ce_today ce) (ce_hour ce) st 0.001 ''local''
                 (int words) (ce_elapsed_ms ce),
               LedgerRecord ''local'' 0.001))"

text \<open>
  \<^verbatim>\<open>AIManager.generate_dialogue\<close>, for any value of
  \<^verbatim>\<open>self.hybrid_manager\<close>. The cache key, the cache lookup and the budget check
  stand before the \<^verbatim>\<open>try\<close>: an exception of the key computation reaches the
  caller. The handler of the \<^verbatim>\<open>try\<close> returns the fallback without caching it.
  Reading the emotional state and the gossip have handlers of their own and only feed the
  prompt. Storing the memory and creating gossip swallow their errors.
\<close>

definition generate_dialogue ::
  "library \<Rightarrow> settings \<Rightarrow> hybrid_manager option \<Rightarrow> call_env \<Rightarrow> redis_store \<Rightarrow> string
     \<Rightarrow> NPCInteractionContext \<Rightarrow> PersonalityTraits \<Rightarrow> MemoryItem list \<Rightarrow> bool
     \<Rightarrow> redis_store \<times> event list \<times> (error + DialogueResponse)" where
  "generate_dialogue lib cfg hm ce st npc_id ctx personality memories force_claude =
     (case get_dialogue_cache_key lib npc_id ctx memories of
        Inl e \<Rightarrow> (st, [], Inl e)
      | Inr cache_key \<Rightarrow>
     (case get_cached_dialogue (ce_cache_get_raises ce) (ce_now ce) st cache_key of
           Some cached_response \<Rightarrow> (st, [CacheGet cache_key], Inr cached_response)
         | None \<Rightarrow>
             (case can_make_request (max_cost_per_day_usd cfg) (ce_budget_read_raises ce)
                     (ce_today ce) st of
                Inl e \<Rightarrow> (st, [CacheGet cache_key, BudgetCheck], Inl e)
              | Inr can_use_claude \<Rightarrow>
                  (let force = effective_force_claude can_use_claude force_claude;
                       pre = [CacheGet cache_key, BudgetCheck];
                       fallback = generate_fallback_dialogue (ce_rnd ce) ctx personality
                   in case (if ai_enabled cfg then hm else None) of
                        None \<Rightarrow>
                          (cache_dialogue (ce_cache_set_raises ce) (ce_now ce) (ai_cache_ttl cfg)
                             st cache_key fallback,
                           pre @ [CacheSet cache_key, MemoryStore, GossipCreate],
                           Inr fallback)
                      | Some h \<Rightarrow>
                          (case call_hybrid_manager h ctx personality memories force of
                             (calls, Inl e) \<Rightarrow> (st, pre @ map BackendCall calls, Inr fallback)
                           | (calls, Inr generated) \<Rightarrow>
                               (let v = validate_dialogue (lib_re_search lib) generated ctx
                                          (Some personality);
                                    response =
                                      (if \<not> is_valid v \<and> severity v = CRITICAL then fallback
                                       else generated)
                                in case record_generation ce st can_use_claude force response of
                                     ((st1, Inl e), ev) \<Rightarrow>
                                       (st1, pre @ map BackendCall calls @ [ev], Inr fallback)
                                   | ((st1, Inr u), ev) \<Rightarrow>
                                       (cache_dialogue (ce_cache_set_raises ce) (ce_now ce)
                                          (ai_cache_ttl cfg) st1 cache_key response,
                                        pre @ map BackendCall calls
                                          @ [ev, CacheSet cache_key, MemoryStore, GossipCreate],
                                        Inr response)))))))"

text \<open>
  The orchestrator as the repository builds it. The constructor leaves
  \<^verbatim>\<open>self.redis\<close> and \<^verbatim>\<open>self.hybrid_manager\<close> at \<^verbatim>\<open>None\<close>, so that
  before \<^verbatim>\<open>initialize()\<close> every cache command raises
  \<^verbatim>\<open>AttributeError\<close> inside its handler. \<^verbatim>\<open>initialize()\<close> sets the Redis
  client and \<^verbatim>\<open>HybridLLMManager(self, self.local_llm)\<close>: the Cloud manager of the
  router is the orchestrator itself, called with the router's own arguments and the
  default \<^verbatim>\<open>force_claude=False\<close>. \<open>depth\<close> is the room left on the call stack
  for such nested calls; a nested call meets the store and the surroundings of the call
  it is nested in, and the router hands on its outcome only.
\<close>

primrec installed_hybrid_env ::
  "nat \<Rightarrow> library \<Rightarrow> settings \<Rightarrow> local_env \<Rightarrow> real \<Rightarrow> call_env \<Rightarrow> redis_store \<Rightarrow> string
     \<Rightarrow> NPCInteractionContext \<Rightarrow> PersonalityTraits \<Rightarrow> MemoryItem list \<Rightarrow> hybrid_env" where
  "installed_hybrid_env 0 lib cfg le draw ce st npc_id ctx personality memories =
     \<lparr>he_local = le, he_draw = draw, he_claude = (\<lambda>_. Inl RecursionError)\<rparr>"
| "installed_hybrid_env (Suc depth) lib cfg le draw ce st npc_id ctx personality memories =
     \<lparr>he_local = le, he_draw = draw,
      he_claude =
        (\<lambda>_. snd (snd (generate_dialogue lib cfg
                         (Some (HybridLLMManager 0.8
                                  (installed_hybrid_env depth lib cfg le draw ce st npc_id ctx
                                     personality memories)))
                         ce st npc_id ctx personality memories False)))\<rparr>"

definition AIManager_generate_dialogue ::
  "nat \<Rightarrow> library \<Rightarrow> settings \<Rightarrow> bool \<Rightarrow> local_env \<Rightarrow> real \<Rightarrow> call_env \<Rightarrow> redis_store
     \<Rightarrow> string \<Rightarrow> NPCInteractionContext \<Rightarrow> PersonalityTraits \<Rightarrow> MemoryItem list \<Rightarrow> bool
     \<Rightarrow> redis_store \<times> event list \<times> (error + DialogueResponse)" where
  "AIManager_generate_dialogue depth lib cfg initialized le draw ce st npc_id ctx personality
     memories force_claude =
     (if initialized
      then generate_dialogue lib cfg
             (Some (HybridLLMManager 0.8
                      (installed_hybrid_env depth lib cfg le draw ce st npc_id ctx personality
                         memories)))
             ce st npc_id ctx personality memories force_claude
      else generate_dialogue lib cfg None
             (ce\<lparr>ce_cache_get_raises := True, ce_cache_set_raises := True\<rparr>)
             st npc_id ctx personality memories force_claude)"

text \<open>A response the caller can show: some text, and an emotion the prompt allows.\<close>

definition presentable :: "DialogueResponse \<Rightarrow> bool" where
  "presentable r = (dr_text r \<noteq> [] \<and> dr_emotion r \<in> set allowed_emotions)"

text \<open>
  No backend answered: the hybrid manager is not consulted (it is absent or AI is
  switched off), or its call raises whichever way \<^verbatim>\<open>force_claude\<close> is passed.
\<close>

definition no_backend_response ::
  "settings \<Rightarrow> hybrid_manager option \<Rightarrow> NPCInteractionContext \<Rightarrow> PersonalityTraits
     \<Rightarrow> MemoryItem list \<Rightarrow> bool" where
  "no_backend_response cfg hm ctx personality memories =
     (case (if ai_enabled cfg then hm else None) of
        None \<Rightarrow> True
      | Some h \<Rightarrow>
          isl (snd (call_hybrid_manager h ctx personality memories True))
          \<and> isl (snd (call_hybrid_manager h ctx personality memories False)))"

section \<open>Concrete inputs\<close>

text \<open>
  Stand-ins for the library functions, used only to evaluate the model on concrete
  inputs: a formatter that rounds a level in the unit interval to one decimal, the
  identity in place of MD5, and a matcher that knows one violence and one
  fourth-wall pattern.
\<close>

definition example_format_1f :: "real \<Rightarrow> string" where
  "example_format_1f x =
     (case find (\<lambda>n. x * 10 < real n + 1 / 2) [0, 1, 2, 3, 4, 5, 6, 7, 8, 9] of
        Some n \<Rightarrow> ''0.'' @ str_nat n
      | None \<Rightarrow> ''1.0'')"

definition example_re_search :: regex_engine where
  "example_re_search p t =
     (p = Forbidden ''violence'' 0 \<and> py_in ''kill'' t \<or> p = Meta 0 \<and> py_in ''i am an ai'' t)"

definition example_library :: library where
  "example_library =
     \<lparr>lib_re_search = example_re_search, lib_md5_hexdigest = (\<lambda>s. s),
      lib_format_1f = example_format_1f\<rparr>"

definition example_settings :: settings where
  "example_settings = \<lparr>ai_enabled = True, ai_cache_ttl = 3600, max_cost_per_day_usd = 50.0\<rparr>"

definition example_context :: "real \<Rightarrow> NPCInteractionContext" where
  "example_context rel =
     \<lparr>ctx_player_id = ''player-1'', ctx_npc_id = ''npc-1'', interaction_type = ''greeting'',
      player_position = (0, 0), player_party_summary = ''Bamboon (Level 5)'',
      recent_achievements = [], relationship_level = rel, time_of_day = ''morning''\<rparr>"

definition example_personality :: PersonalityTraits where
  "example_personality =
     \<lparr>curiosity = 0.5, patience = 0.5, verbosity = 0.5, humor = 0.5, trust_threshold = 0.3,
      friendliness = 0.5, competitiveness = 0.5, knowledge_sharing = 0.5\<rparr>"

definition example_call_env :: "nat \<Rightarrow> nat \<Rightarrow> call_env" where
  "example_call_env now rnd =
     \<lparr>ce_now = now, ce_today = 0, ce_hour = 9, ce_cache_get_raises = False,
      ce_cache_set_raises = False, ce_budget_read_raises = False, ce_record_fail_at = None,
      ce_rnd = rnd, ce_elapsed_ms = 120\<rparr>"

definition example_local_env :: "bool \<Rightarrow> error + DialogueResponse option \<Rightarrow> local_env" where
  "example_local_env healthy http =
     \<lparr>le_enabled = True, le_healthy = healthy, le_healthy_adapter = healthy, le_http = http,
      le_rnd = 0\<rparr>"

definition example_hybrid_env ::
  "bool \<Rightarrow> error + DialogueResponse option \<Rightarrow> (nat \<Rightarrow> error + DialogueResponse)
     \<Rightarrow> hybrid_env" where
  "example_hybrid_env healthy http claude =
     \<lparr>he_local = example_local_env healthy http, he_draw = 0.5, he_claude = claude\<rparr>"

text \<open>The local model is unhealthy and every call of the Cloud manager raises.\<close>

definition backends_down :: hybrid_env where
  "backends_down =
     example_hybrid_env False (Inl (BackendError ''connection refused''))
       (\<lambda>_. Inl (BackendError ''API timeout''))"

text \<open>The local model answers and every call of the Cloud manager raises.\<close>

definition berry_reply :: DialogueResponse where
  "berry_reply = mk_response ''The berries near the river are ripe.'' ''happy'' 0.05"

definition local_only :: hybrid_env where
  "local_only =
     example_hybrid_env True (Inr (Some berry_reply)) (\<lambda>_. Inl (BackendError ''API timeout''))"

text \<open>A store whose cost of day 0 has reached the cap of 50.\<close>

definition example_exhausted_store :: redis_store where
  "example_exhausted_store = empty_store\<lparr>cost_tracker := (\<lambda>_. None)(0 := Some 50.0)\<rparr>"

text \<open>
  A hybrid manager as the class defines it, except that its method also declares the
  keyword \<^verbatim>\<open>gossip_context\<close>.
\<close>

definition keyword_tolerant_manager :: "hybrid_env \<Rightarrow> hybrid_manager" where
  "keyword_tolerant_manager he =
     (HybridLLMManager 0.8 he)\<lparr>hm_parameters := orchestrator_keywords\<rparr>"

text \<open>A reply with a threat, a reply made of two generic phrases, and a week of costs.\<close>

definition threatening_reply :: DialogueResponse where
  "threatening_reply = mk_response ''I will kill you'' ''angry'' 0.0"

definition generic_reply :: DialogueResponse where
  "generic_reply = mk_response ''Hello there! How are you?'' ''neutral'' 0.05"

text \<open>
  A context whose interaction type is the lone surrogate U+D800, the local reply of the
  repository's test of an exhausted budget, and a memory.
\<close>

definition surrogate_context :: NPCInteractionContext where
  "surrogate_context =
     (example_context 0.5)\<lparr>interaction_type := [CHR 0xED, CHR 0xA0, CHR 0x80]\<rparr>"

definition hello_reply :: DialogueResponse where
  "hello_reply = mk_response ''Hello there! How are you doing today?'' ''neutral'' 0.05"

definition lost_item_memory :: MemoryItem where
  "lost_item_memory =
     \<lparr>mem_id = ''memory-1'', mem_npc_id = ''npc-1'', mem_player_id = ''player-1'',
      content = ''Player helped me find my lost item'', importance = 0.8, timestamp = 0,
      tags = [''helpful''], emotional_context = ''grateful''\<rparr>"

definition example_week_store :: redis_store where
  "example_week_store =
     empty_store\<lparr>cost_tracker := (\<lambda>_. None)(0 := Some 1.0, -1 := Some 2.0, -3 := Some 3.0)\<rparr>"

section \<open>Properties\<close>

subsection \<open>Auxiliary facts\<close>

lemma random_choice_in: "xs \<noteq> [] \<Longrightarrow> random_choice rnd xs \<in> set xs"
  by (simp add: random_choice_def)

lemma fallback_table_nonempty:
  "(case map_of fallback_responses k of Some rs \<Rightarrow> rs | None \<Rightarrow> greeting_responses) \<noteq> []
   \<and> (\<forall>t \<in> set (case map_of fallback_responses k of Some rs \<Rightarrow> rs | None \<Rightarrow> greeting_responses). t \<noteq> [])"
  by (simp add: fallback_responses_def greeting_responses_def)

lemma fallback_presentable: "presentable (generate_fallback_dialogue rnd ctx p)"
proof -
  let ?rs = "case map_of fallback_responses (interaction_type ctx) of
               Some rs \<Rightarrow> rs | None \<Rightarrow> greeting_responses"
  have "random_choice rnd ?rs \<in> set ?rs"
    using fallback_table_nonempty[of "interaction_type ctx"] by (intro random_choice_in) simp
  then have "random_choice rnd ?rs \<noteq> []"
    using fallback_table_nonempty[of "interaction_type ctx"] by blast
  then show ?thesis
    by (simp add: presentable_def generate_fallback_dialogue_def mk_response_def Let_def
        allowed_emotions_def)
qed

lemma can_make_request_returns:
  "\<exists>b. can_make_request max_cost hget_raises today st = Inr b"
  by (auto simp add: can_make_request_def get_redis_def split: option.splits)

lemma record_request_returns:
  "snd (record_request fail_at today hour st c m t ms) = Inr ()"
  by (simp add: record_request_def get_redis_def case_prod_beta)

lemma record_generation_returns:
  "snd (fst (record_generation ce st can force r)) = Inr ()"
  by (simp add: record_generation_def Let_def record_request_returns)

text \<open>
  The orchestrator raises exactly when the computation of the cache key does: an
  exception of the key reaches the caller, and once the key is there every later failure
  is answered.
\<close>

lemma generate_dialogue_key_error:
  "get_dialogue_cache_key lib npc_id ctx mems = Inl e \<Longrightarrow>
   generate_dialogue lib cfg hm ce st npc_id ctx p mems force = (st, [], Inl e)"
  by (simp add: generate_dialogue_def)

lemma generate_dialogue_returns:
  assumes "get_dialogue_cache_key lib npc_id ctx mems = Inr k"
  shows "\<exists>r. snd (snd (generate_dialogue lib cfg hm ce st npc_id ctx p mems force)) = Inr r"
  using assms
    can_make_request_returns[of "max_cost_per_day_usd cfg" "ce_budget_read_raises ce" "ce_today ce" st]
    record_generation_returns
  by (auto simp add: generate_dialogue_def Let_def split: option.splits sum.splits prod.splits)

text \<open>A surrogate inside a string is a surrogate of every string around it.\<close>

lemma has_surrogate_append_right: "has_surrogate xs \<Longrightarrow> has_surrogate (xs @ zs)"
  by (induction xs rule: has_surrogate.induct) auto

lemma has_surrogate_Cons: "has_surrogate xs \<Longrightarrow> has_surrogate (y # xs)"
  by (cases xs) auto

lemma has_surrogate_append_left: "has_surrogate xs \<Longrightarrow> has_surrogate (ys @ xs)"
  by (induction ys) (simp_all add: has_surrogate_Cons)

lemma unencodable_interaction_type:
  assumes "has_surrogate (interaction_type ctx)"
  shows "get_dialogue_cache_key lib npc_id ctx mems
           = Inl (UnicodeEncodeError ''surrogates not allowed'')"
proof -
  have "has_surrogate (interaction_type ctx @ '':'' @ lib_format_1f lib (relationship_level ctx)
                         @ '':'' @ str_nat (length mems))"
    using assms by (rule has_surrogate_append_right)
  then have "has_surrogate ((npc_id @ '':'') @ interaction_type ctx @ '':''
                              @ lib_format_1f lib (relationship_level ctx)
                              @ '':'' @ str_nat (length mems))"
    by (rule has_surrogate_append_left)
  then show ?thesis
    by (simp add: get_dialogue_cache_key_def py_encode_def)
qed

text \<open>
  The class \<^verbatim>\<open>HybridLLMManager\<close> does not declare the keyword
  \<^verbatim>\<open>gossip_context\<close> the orchestrator passes, so the orchestrator's call raises
  before the router runs.
\<close>

lemma call_installed_raises:
  "call_hybrid_manager (HybridLLMManager ratio he) ctx p mems f = ([], Inl (TypeError ''gossip_context''))"
  by (simp add: call_hybrid_manager_def HybridLLMManager_def orchestrator_keywords_def)

text \<open>
  What the orchestrator does as the repository builds it: the result depends neither on
  the local model nor on the router's draw nor on the room for nested calls, because the
  router is never entered.
\<close>

lemma installed_generate_cases:
  "AIManager_generate_dialogue depth lib cfg initialized le draw ce st npc_id ctx p mems force
   = (case get_dialogue_cache_key lib npc_id ctx mems of
        Inl e \<Rightarrow> (st, [], Inl e)
      | Inr k \<Rightarrow>
          (let fb = generate_fallback_dialogue (ce_rnd ce) ctx p
           in if initialized
              then (case get_cached_dialogue (ce_cache_get_raises ce) (ce_now ce) st k of
                      Some cached \<Rightarrow> (st, [CacheGet k], Inr cached)
                    | None \<Rightarrow>
                        (if ai_enabled cfg then (st, [CacheGet k, BudgetCheck], Inr fb)
                         else (cache_dialogue (ce_cache_set_raises ce) (ce_now ce)
                                 (ai_cache_ttl cfg) st k fb,
                               [CacheGet k, BudgetCheck, CacheSet k, MemoryStore, GossipCreate],
                               Inr fb)))
              else (st, [CacheGet k, BudgetCheck, CacheSet k, MemoryStore, GossipCreate],
                    Inr fb)))"
proof -
  obtain b where b: "can_make_request (max_cost_per_day_usd cfg) (ce_budget_read_raises ce)
                       (ce_today ce) st = Inr b"
    using can_make_request_returns by blast
  show ?thesis
    using b
    by (simp add: AIManager_generate_dialogue_def generate_dialogue_def call_installed_raises
        get_cached_dialogue_def cache_dialogue_def Let_def split: sum.splits option.splits)
qed

lemma ledger_cache_dialogue: "ledger (cache_dialogue raises now ttl st k r) = ledger st"
  by (simp add: ledger_def cache_dialogue_def)

lemma hybrid_both_adapters_fail:
  assumes "isl (local_generate_dialogue (he_local he) ctx personality)"
    and "\<forall>k. isl (he_claude he k)"
  shows "isl (snd (hybrid_generate_dialogue ratio he ctx personality memories force_claude))"
  using assms
  by (auto simp add: hybrid_generate_dialogue_def Let_def split: sum.splits)

lemma filter_positive_nonneg:
  "\<forall>c \<in> set xs. (0::real) \<le> c \<Longrightarrow> filter (\<lambda>c. c > 0) xs = filter (\<lambda>c. c \<noteq> 0) xs"
  by (rule filter_cong) auto

lemma sum_list_filter_nonzero: "sum_list (filter (\<lambda>c. c \<noteq> 0) xs) = sum_list (xs::real list)"
  by (induction xs) simp_all

lemma list_ex_filter: "list_ex P xs \<longleftrightarrow> filter P xs \<noteq> []"
  by (simp add: list_ex_iff filter_empty_conv)

text \<open>
  The cache key is a function of the NPC, the interaction type, the level formatted to
  one decimal and the number of memories; a readable entry under the key is returned
  without any other step.
\<close>

lemma cache_key_cong:
  assumes "npc_id' = npc_id" and "interaction_type ctx' = interaction_type ctx"
    and "lib_format_1f lib (relationship_level ctx') = lib_format_1f lib (relationship_level ctx)"
    and "length memories' = length memories"
  shows "get_dialogue_cache_key lib npc_id' ctx' memories'
           = get_dialogue_cache_key lib npc_id ctx memories"
  using assms by (simp add: get_dialogue_cache_key_def)

lemma cache_hit:
  assumes "get_dialogue_cache_key lib npc_id ctx memories = Inr k"
    and "dialogue_cache st k = Some (r, expiry)"
    and "ce_now ce < expiry" and "\<not> ce_cache_get_raises ce"
  shows "generate_dialogue lib cfg hm ce st npc_id ctx personality memories force_claude
           = (st, [CacheGet k], Inr r)"
  using assms by (simp add: generate_dialogue_def Let_def get_cached_dialogue_def)

text \<open>
  Lines 87 to 90: with the budget exhausted the orchestrator clears a requested
  \<^verbatim>\<open>force_claude\<close>, so a forced call does what the unforced call does, for any
  hybrid manager.
\<close>

lemma exhausted_budget_clears_force:
  assumes "cost_tracker st (ce_today ce) = Some c" and "c \<ge> max_cost_per_day_usd cfg"
    and "\<not> ce_budget_read_raises ce"
  shows "generate_dialogue lib cfg hm ce st npc_id ctx personality memories True
           = generate_dialogue lib cfg hm ce st npc_id ctx personality memories False"
proof -
  have "can_make_request (max_cost_per_day_usd cfg) (ce_budget_read_raises ce) (ce_today ce) st
          = Inr False"
    using assms by (simp add: can_make_request_def get_redis_def)
  then show ?thesis
    unfolding generate_dialogue_def
    by (simp add: effective_force_claude_def cong: sum.case_cong option.case_cong)
qed

text \<open>
  Lines 326 to 337 of the router: a rejected local response is followed by a call of the
  Cloud manager, whether or not that call returns.
\<close>

lemma rejection_calls_cloud:
  assumes "\<not> force_claude" and "le_enabled (he_local he)" and "le_healthy (he_local he)"
    and "should_use_local ratio (he_draw he) ctx personality memories"
    and "local_generate_dialogue (he_local he) ctx personality = Inr response"
    and "is_response_too_generic response memories ctx"
  shows "take 2 (fst (hybrid_generate_dialogue ratio he ctx personality memories force_claude))
           = [Local, Cloud]"
  using assms by (simp add: hybrid_generate_dialogue_def split: sum.splits)

lemma rejection_second_cloud_call:
  assumes "\<not> force_claude" and "le_enabled (he_local he)" and "le_healthy (he_local he)"
    and "should_use_local ratio (he_draw he) ctx personality memories"
    and "local_generate_dialogue (he_local he) ctx personality = Inr response"
    and "is_response_too_generic response memories ctx"
    and "he_claude he 0 = Inl e"
  shows "hybrid_generate_dialogue ratio he ctx personality memories force_claude
           = ([Local, Cloud, Cloud], he_claude he 1)"
  using assms by (simp add: hybrid_generate_dialogue_def)

lemma fallback_pick0:
  "generate_fallback_dialogue 0 (example_context x) example_personality
     = mk_response ''Hello there! How are you doing?'' ''neutral'' (1 / 10)"
  by (simp add: generate_fallback_dialogue_def example_context_def example_personality_def
      fallback_responses_def greeting_responses_def random_choice_def)

lemma fallback_pick1:
  "generate_fallback_dialogue (Suc 0) (example_context x) example_personality
     = mk_response ''Hey! Nice to see you!'' ''neutral'' (1 / 10)"
  by (simp add: generate_fallback_dialogue_def example_context_def example_personality_def
      fallback_responses_def greeting_responses_def random_choice_def)

lemma example_key:
  "get_dialogue_cache_key example_library ''npc-1'' (example_context (1 / 2)) []
     = Inr ''dialogue:npc-1:greeting:0.5:0''"
  by code_simp

lemma example_key_low:
  "get_dialogue_cache_key example_library ''npc-1'' (example_context (3 / 10)) []
     = Inr ''dialogue:npc-1:greeting:0.3:0''"
  by code_simp

lemma example_key_high:
  "get_dialogue_cache_key example_library ''npc-1'' (example_context (9 / 10)) []
     = Inr ''dialogue:npc-1:greeting:0.9:0''"
  by code_simp

lemma surrogate_context_unencodable: "has_surrogate (interaction_type surrogate_context)"
  by (simp add: surrogate_context_def example_context_def)

lemma threat_canon: "snd (check_canon_violations example_re_search (dr_text threatening_reply)) = 1"
  by code_simp
lemma threat_forbidden: "snd (check_forbidden_content example_re_search (dr_text threatening_reply)) = 1 / 2"
  by code_simp
lemma threat_tone: "snd (check_tone_consistency example_re_search threatening_reply (example_context (1 / 2)) (Some example_personality)) = 1"
  by code_simp
lemma threat_meta: "snd (check_meta_references example_re_search (dr_text threatening_reply)) = 1"
  by code_simp
lemma threat_mobile: "snd (check_mobile_constraints (dr_text threatening_reply)) = 1"
  by code_simp

text \<open>
  The quality gate on concrete replies. Two generic phrases reject a reply once the
  level is above 0.2, and not below; with memories and a level above 0.3 a reply is
  rejected when it shares no word longer than four characters with the first two
  memories.
\<close>

lemma hello_reply_rejected: "is_response_too_generic hello_reply [] (example_context (3 / 10))"
  by code_simp

lemma hello_reply_rejected_surrogate: "is_response_too_generic hello_reply [] surrogate_context"
  by code_simp

lemma generic_reply_rejected: "is_response_too_generic generic_reply [] (example_context (1 / 2))"
  by code_simp

lemma generic_reply_kept: "\<not> is_response_too_generic generic_reply [] (example_context (1 / 10))"
  by code_simp

lemma memory_rule_rejects:
  "is_response_too_generic berry_reply [lost_item_memory] (example_context (1 / 2))"
  by code_simp

lemma memory_rule_keeps:
  "\<not> is_response_too_generic (mk_response ''You helped me before, friend.'' ''happy'' 0.05)
        [lost_item_memory] (example_context (1 / 2))"
  by code_simp

lemma memory_rule_low_level:
  "\<not> is_response_too_generic berry_reply [lost_item_memory] (example_context (3 / 10))"
  by code_simp

lemma memory_rejection_rerouted:
  "take 2 (fst (hybrid_generate_dialogue 0.8
                  \<lparr>he_local = example_local_env True (Inr (Some berry_reply)),
                   he_draw = 1 / 2, he_claude = claude\<rparr>
                  (example_context (1 / 2)) example_personality [lost_item_memory] False))
     = [Local, Cloud]"
proof -
  have "should_use_local 0.8 (1 / 2) (example_context (1 / 2)) example_personality
          [lost_item_memory]"
    by (simp add: should_use_local_def example_context_def)
  moreover have "local_generate_dialogue (example_local_env True (Inr (Some berry_reply)))
                   (example_context (1 / 2)) example_personality = Inr berry_reply"
    by (simp add: local_generate_dialogue_def example_local_env_def)
  moreover have "le_enabled (example_local_env True (Inr (Some berry_reply)))"
      "le_healthy (example_local_env True (Inr (Some berry_reply)))"
    by (simp_all add: example_local_env_def)
  ultimately show ?thesis
    using memory_rule_rejects
    by (intro rejection_calls_cloud[where response = berry_reply]) simp_all
qed

lemma week_costs: "last_week_costs 50 (\<lambda>_. False) example_week_store 0 = [1, 2, 0, 3, 0, 0, 0]"
  by (simp add: last_week_costs_def get_daily_stats_def example_week_store_def empty_store_def
      Let_def upt_rec)

text \<open>
  A run of the whole pipeline with a manager that declares the keyword: the local reply
  passes the quality gate and the validator, is entered in the ledger (as a Cloud request,
  since the budget allows Cloud) and is cached.
\<close>

lemma berry_not_generic: "\<not> is_response_too_generic berry_reply [] (example_context (1 / 2))"
  by code_simp

lemma berry_valid:
  "is_valid (validate_dialogue example_re_search berry_reply (example_context (1 / 2))
               (Some example_personality))"
  by code_simp

lemma berry_hybrid:
  "call_hybrid_manager (keyword_tolerant_manager (example_hybrid_env True (Inr (Some berry_reply)) cl))
     (example_context (1 / 2)) example_personality [] False
   = ([Local], Inr berry_reply)"
  using berry_not_generic
  by (simp add: call_hybrid_manager_def keyword_tolerant_manager_def HybridLLMManager_def
      orchestrator_keywords_def hybrid_generate_dialogue_def example_hybrid_env_def
      example_local_env_def local_generate_dialogue_def should_use_local_def example_context_def)

lemma tolerant_manager_run:
  "snd (generate_dialogue example_library example_settings
          (Some (keyword_tolerant_manager (example_hybrid_env True (Inr (Some berry_reply)) cl)))
          (example_call_env 0 0) empty_store
          ''npc-1'' (example_context (1 / 2)) example_personality [] False)
     = ([CacheGet ''dialogue:npc-1:greeting:0.5:0'', BudgetCheck, BackendCall Local,
         LedgerRecord ''claude'' (1 / 50), CacheSet ''dialogue:npc-1:greeting:0.5:0'',
         MemoryStore, GossipCreate],
        Inr berry_reply)"
proof -
  have fm: "dr_text berry_reply \<noteq> ''fallback_marker''"
    by (simp add: berry_reply_def mk_response_def)
  have cfg: "ai_enabled example_settings" "max_cost_per_day_usd example_settings = 50"
    by (simp_all add: example_settings_def)
  have lib: "lib_re_search example_library = example_re_search"
    by (simp add: example_library_def)
  have env: "\<not> ce_cache_get_raises (example_call_env 0 0)"
      "\<not> ce_budget_read_raises (example_call_env 0 0)"
      "ce_today (example_call_env 0 0) = 0"
    by (simp_all add: example_call_env_def)
  have miss: "get_cached_dialogue False (ce_now (example_call_env 0 0)) empty_store k = None" for k
    by (simp add: get_cached_dialogue_def empty_store_def)
  have can: "can_make_request 50 False 0 empty_store = Inr True"
    by (simp add: can_make_request_def get_redis_def empty_store_def)
  show ?thesis
    using berry_valid fm
    by (simp add: generate_dialogue_def Let_def example_key cfg lib env miss can berry_hybrid
        effective_force_claude_def record_generation_def record_request_def get_redis_def
        case_prod_beta)
qed

subsection \<open>The orchestrator and its caller\<close>

text \<open>
  C1. The orchestrator's generate_dialogue is claimed never to raise to its caller. It
  does for every input whose interaction type holds a surrogate: the cache key is
  computed before the \<^verbatim>\<open>try\<close> block, \<^verbatim>\<open>content.encode()\<close> raises
  \<^verbatim>\<open>UnicodeEncodeError\<close>, and the exception reaches the caller with no response,
  no store access and no backend call, whatever the hybrid manager, the store, the
  settings and the surroundings are.
\<close>

theorem C1_unencodable_interaction_type_raises:
  assumes "has_surrogate (interaction_type ctx)"
  shows "generate_dialogue lib cfg hm ce st npc_id ctx personality memories force_claude
           = (st, [], Inl (UnicodeEncodeError ''surrogates not allowed''))"
  using assms by (simp add: generate_dialogue_key_error unencodable_interaction_type)

theorem C1_witness:
  "has_surrogate (interaction_type surrogate_context)
   \<and> AIManager_generate_dialogue (Suc 0) example_library example_settings True
        (example_local_env True (Inr (Some berry_reply))) (1 / 2) (example_call_env 0 0)
        empty_store ''npc-1'' surrogate_context example_personality [] False
       = (empty_store, [], Inl (UnicodeEncodeError ''surrogates not allowed''))"
  using surrogate_context_unencodable
    C1_unencodable_interaction_type_raises[OF surrogate_context_unencodable]
  by (simp add: AIManager_generate_dialogue_def)

subsection \<open>Budget and routing\<close>

text \<open>
  C2. With today's cost at the cap, can_make_request returns false and the orchestrator
  clears a requested force_claude: the forced call does what the unforced call does, for
  any hybrid manager. The claim that the router then never selects Cloud fails: the
  router is given no budget, and at relationship level 0.9 its only backend call is the
  Cloud manager, whatever the local model, the draw and the Cloud manager are. As the
  repository builds the orchestrator, its call of the router raises, and the request
  ends in the canned fallback with no backend call and no ledger entry.
\<close>

theorem C2_router_selects_cloud_on_exhausted_budget:
  "can_make_request 50 False 0 example_exhausted_store = Inr False
   \<and> generate_dialogue lib example_settings hm (example_call_env 0 0) example_exhausted_store
        npc_id ctx personality memories True
       = generate_dialogue lib example_settings hm (example_call_env 0 0) example_exhausted_store
           npc_id ctx personality memories False
   \<and> fst (hybrid_generate_dialogue 0.8 he (example_context (9 / 10)) example_personality
             memories (effective_force_claude False True)) = [Cloud]
   \<and> AIManager_generate_dialogue depth example_library example_settings True le draw
        (example_call_env 0 0) example_exhausted_store ''npc-1'' (example_context (9 / 10))
        example_personality [] True
       = (example_exhausted_store, [CacheGet ''dialogue:npc-1:greeting:0.9:0'', BudgetCheck],
          Inr (mk_response ''Hello there! How are you doing?'' ''neutral'' (1 / 10)))"
proof -
  have cost: "cost_tracker example_exhausted_store (ce_today (example_call_env 0 0)) = Some 50"
    by (simp add: example_exhausted_store_def empty_store_def example_call_env_def)
  have cap: "(50::real) \<ge> max_cost_per_day_usd example_settings"
    by (simp add: example_settings_def)
  have rd: "\<not> ce_budget_read_raises (example_call_env 0 0)"
    by (simp add: example_call_env_def)
  have c1: "can_make_request 50 False 0 example_exhausted_store = Inr False"
    by (simp add: can_make_request_def get_redis_def example_exhausted_store_def empty_store_def)
  have c2: "generate_dialogue lib example_settings hm (example_call_env 0 0)
              example_exhausted_store npc_id ctx personality memories True
            = generate_dialogue lib example_settings hm (example_call_env 0 0)
                example_exhausted_store npc_id ctx personality memories False"
    using cost cap rd by (rule exhausted_budget_clears_force)
  have c3: "fst (hybrid_generate_dialogue 0.8 he (example_context (9 / 10)) example_personality
                   memories (effective_force_claude False True)) = [Cloud]"
    by (simp add: hybrid_generate_dialogue_def should_use_local_def example_context_def)
  have c4: "AIManager_generate_dialogue depth example_library example_settings True le draw
              (example_call_env 0 0) example_exhausted_store ''npc-1'' (example_context (9 / 10))
              example_personality [] True
            = (example_exhausted_store,
               [CacheGet ''dialogue:npc-1:greeting:0.9:0'', BudgetCheck],
               Inr (mk_response ''Hello there! How are you doing?'' ''neutral'' (1 / 10)))"
    by (simp add: installed_generate_cases example_key_high Let_def get_cached_dialogue_def
        example_exhausted_store_def empty_store_def example_call_env_def example_settings_def
        fallback_pick0)
  from c1 c2 c3 c4 show ?thesis by blast
qed

text \<open>
  C7. For every routing decision with relationship_level above 0.8 the router selects
  the Cloud backend: \<^verbatim>\<open>_should_use_local\<close> answers no and the only backend called
  is the Cloud manager, for every local-affinity ratio, every random draw, every state
  of the local model and either value of force_claude.
\<close>

theorem C7_high_relationship_routes_cloud:
  assumes "relationship_level ctx > 0.8"
  shows "\<not> should_use_local ratio draw ctx personality memories
         \<and> hybrid_generate_dialogue ratio he ctx personality memories force_claude
             = ([Cloud], he_claude he 0)"
  using assms by (simp add: should_use_local_def hybrid_generate_dialogue_def)

theorem C7_witness:
  "relationship_level (example_context 0.9) > 0.8
   \<and> \<not> should_use_local 1 0 (example_context 0.9) example_personality []
   \<and> hybrid_generate_dialogue 1
        (example_hybrid_env True (Inr None) (\<lambda>_. Inr (mk_response ''Great to see you, old friend!'' ''happy'' 0.1)))
        (example_context 0.9) example_personality [] False
       = ([Cloud], Inr (mk_response ''Great to see you, old friend!'' ''happy'' 0.1))"
proof -
  have h: "relationship_level (example_context 0.9) > 0.8"
    by (simp add: example_context_def)
  show ?thesis
    using h C7_high_relationship_routes_cloud[OF h, of 1 0 example_personality "[]"
        "example_hybrid_env True (Inr None) (\<lambda>_. Inr (mk_response ''Great to see you, old friend!'' ''happy'' 0.1))" False]
    by (simp add: example_hybrid_env_def)
qed

subsection \<open>The ledger\<close>

text \<open>
  C3. A request in which no backend call succeeds (a cache hit, or a fallback because
  the hybrid manager is not consulted or its call raises) creates no ledger record:
  daily cost, request counts and the usage totals (tokens, latency) are unchanged.
\<close>

theorem C3_no_backend_no_ledger_record:
  assumes "(\<exists>k. get_dialogue_cache_key lib npc_id ctx memories = Inr k
                \<and> get_cached_dialogue (ce_cache_get_raises ce) (ce_now ce) st k \<noteq> None)
           \<or> no_backend_response cfg hm ctx personality memories"
  shows "ledger (fst (generate_dialogue lib cfg hm ce st npc_id ctx personality memories
                        force_claude)) = ledger st
         \<and> (\<forall>m c. LedgerRecord m c
                \<notin> set (fst (snd (generate_dialogue lib cfg hm ce st npc_id ctx personality
                                   memories force_claude))))"
proof (cases "get_dialogue_cache_key lib npc_id ctx memories")
  case (Inl e)
  then show ?thesis
    by (simp add: generate_dialogue_key_error)
next
  case key: (Inr k)
  show ?thesis
  proof (cases "get_cached_dialogue (ce_cache_get_raises ce) (ce_now ce) st k")
    case (Some cached)
    with key show ?thesis
      by (auto simp add: generate_dialogue_def Let_def)
  next
    case None
    with key assms have nb: "no_backend_response cfg hm ctx personality memories"
      by simp
    obtain b where b: "can_make_request (max_cost_per_day_usd cfg) (ce_budget_read_raises ce)
                         (ce_today ce) st = Inr b"
      using can_make_request_returns by blast
    show ?thesis
    proof (cases "if ai_enabled cfg then hm else None")
      case None': None
      with key None b show ?thesis
        by (auto simp add: generate_dialogue_def Let_def ledger_cache_dialogue)
    next
      case (Some h)
      with nb have "isl (snd (call_hybrid_manager h ctx personality memories
                                (effective_force_claude b force_claude)))"
        by (cases "effective_force_claude b force_claude") (simp_all add: no_backend_response_def)
      then obtain evs e where
        "call_hybrid_manager h ctx personality memories (effective_force_claude b force_claude)
           = (evs, Inl e)"
        by (cases "call_hybrid_manager h ctx personality memories
                     (effective_force_claude b force_claude)") (auto simp add: isl_def)
      then show ?thesis
        using key None b Some by (auto simp add: generate_dialogue_def Let_def)
    qed
  qed
qed

theorem C3_witness:
  "no_backend_response example_settings (Some (keyword_tolerant_manager backends_down))
     (example_context 0.5) example_personality []
   \<and> ledger (fst (generate_dialogue example_library example_settings
                    (Some (keyword_tolerant_manager backends_down)) (example_call_env 0 0)
                    example_exhausted_store ''npc-1'' (example_context 0.5) example_personality []
                    False))
       = ledger example_exhausted_store"
proof -
  have loc: "isl (local_generate_dialogue (he_local backends_down) (example_context 0.5)
                    example_personality)"
    by (simp add: local_generate_dialogue_def backends_down_def example_hybrid_env_def
        example_local_env_def)
  have cl: "\<forall>k. isl (he_claude backends_down k)"
    by (simp add: backends_down_def example_hybrid_env_def)
  have h: "no_backend_response example_settings (Some (keyword_tolerant_manager backends_down))
             (example_context 0.5) example_personality []"
    using hybrid_both_adapters_fail[OF loc cl]
    by (simp add: no_backend_response_def example_settings_def keyword_tolerant_manager_def
        call_hybrid_manager_def HybridLLMManager_def)
  show ?thesis
    using h C3_no_backend_no_ledger_record[OF disjI2, OF h] by simp
qed

text \<open>
  C8. The ledger fails open: can_make_request returns true when the store read raises,
  record_request returns normally whichever of its store commands raises, and the
  orchestrator returns a response whatever the ledger does: the one exception that
  reaches its caller is that of the cache key, which is computed before the ledger is
  consulted.
\<close>

theorem C8_ledger_fails_open:
  "can_make_request max_cost True today st = Inr True
   \<and> snd (record_request fail_at today hour st estimated_cost model_used tokens_used response_time_ms)
       = Inr ()
   \<and> (case get_dialogue_cache_key lib npc_id ctx memories of
         Inl e \<Rightarrow>
           snd (snd (generate_dialogue lib cfg hm ce st npc_id ctx personality memories
                       force_claude)) = Inl e
       | Inr k \<Rightarrow>
           (\<exists>r. snd (snd (generate_dialogue lib cfg hm ce st npc_id ctx personality memories
                            force_claude)) = Inr r))"
proof -
  have "case get_dialogue_cache_key lib npc_id ctx memories of
          Inl e \<Rightarrow>
            snd (snd (generate_dialogue lib cfg hm ce st npc_id ctx personality memories
                        force_claude)) = Inl e
        | Inr k \<Rightarrow>
            (\<exists>r. snd (snd (generate_dialogue lib cfg hm ce st npc_id ctx personality memories
                             force_claude)) = Inr r)"
  proof (cases "get_dialogue_cache_key lib npc_id ctx memories")
    case (Inl e)
    then show ?thesis by (simp add: generate_dialogue_key_error)
  next
    case (Inr k)
    then show ?thesis
      using generate_dialogue_returns[OF Inr] by simp
  qed
  then show ?thesis
    by (simp add: can_make_request_def get_redis_def record_request_returns)
qed

theorem C8_witness:
  "can_make_request 50 True 0 example_exhausted_store = Inr True
   \<and> snd (record_request (Some 0) 0 9 example_exhausted_store 0.02 ''claude'' 10 120) = Inr ()
   \<and> (\<exists>r. snd (snd (generate_dialogue example_library example_settings
                       (Some (keyword_tolerant_manager local_only))
                       ((example_call_env 0 0)\<lparr>ce_budget_read_raises := True,
                                                ce_record_fail_at := Some 0\<rparr>)
                       example_exhausted_store ''npc-1'' (example_context (1 / 2))
                       example_personality [] False)) = Inr r)"
  using C8_ledger_fails_open[where max_cost = 50 and today = 0 and st = example_exhausted_store
      and fail_at = "Some 0" and hour = 9 and estimated_cost = "0.02" and model_used = "''claude''"
      and tokens_used = 10 and response_time_ms = 120 and lib = example_library
      and npc_id = "''npc-1''" and ctx = "example_context (1 / 2)" and memories = "[]"
      and cfg = example_settings and hm = "Some (keyword_tolerant_manager local_only)"
      and ce = "(example_call_env 0 0)\<lparr>ce_budget_read_raises := True,
                                        ce_record_fail_at := Some 0\<rparr>"
      and personality = example_personality and force_claude = False]
  by (simp add: example_key)

text \<open>
  C9. The cost projection is the average daily cost over the last 7 calendar days
  restricted to the days with non-zero cost (0 when there is none), the monthly figure
  is 30 times that average, and the confidence is low for fewer than 3 such days,
  medium for 3 or 4 and high for 5 or more. Daily costs are sums of charges and so not
  negative.
\<close>

theorem C9_cost_projection:
  assumes "\<forall>c \<in> set (last_week_costs max_cost read_raises st today). 0 \<le> c"
  shows "let costs = last_week_costs max_cost read_raises st today;
             active = filter (\<lambda>c. c \<noteq> 0) costs;
             pr = get_cost_projection max_cost read_raises st today
         in costs = map (\<lambda>i. ds_total_cost (get_daily_stats max_cost read_raises st (today - int i)))
                      [0 ..< 7]
            \<and> daily_avg pr = (if active = [] then 0 else sum_list active / real (length active))
            \<and> monthly_projection pr = daily_avg pr * 30
            \<and> confidence pr = (if length active < 3 then ''low''
                               else if length active < 5 then ''medium'' else ''high'')"
proof -
  let ?costs = "last_week_costs max_cost read_raises st today"
  have pos: "filter (\<lambda>c. c > 0) ?costs = filter (\<lambda>c. c \<noteq> 0) ?costs"
    using assms by (rule filter_positive_nonneg)
  show ?thesis
    by (auto simp add: get_cost_projection_def Let_def pos list_ex_filter sum_list_filter_nonzero
        last_week_costs_def[symmetric])
qed

theorem C9_witness:
  "last_week_costs 50 (\<lambda>_. False) example_week_store 0 = [1, 2, 0, 3, 0, 0, 0]
   \<and> daily_avg (get_cost_projection 50 (\<lambda>_. False) example_week_store 0) = 2
   \<and> monthly_projection (get_cost_projection 50 (\<lambda>_. False) example_week_store 0) = 60
   \<and> confidence (get_cost_projection 50 (\<lambda>_. False) example_week_store 0) = ''medium''"
proof -
  have h: "\<forall>c \<in> set (last_week_costs 50 (\<lambda>_. False) example_week_store 0). 0 \<le> c"
    by (simp add: week_costs)
  show ?thesis
    using C9_cost_projection[OF h] by (simp add: Let_def week_costs)
qed

subsection \<open>The cache\<close>

text \<open>
  C4. Two calls that agree on npc_id, interaction_type, level and memory count and are
  made within the TTL are claimed to return the same text, the second from the cache.
  As the repository builds the orchestrator (initialised, AI enabled) they do not: the
  call of the router raises, the handler returns a canned line without caching it, the
  store is left as it was, and the second call draws its own canned line. This holds
  for every state of the local model, every draw of the router and every nesting depth.
\<close>

theorem C4_installed_second_call_not_cached:
  "AIManager_generate_dialogue depth example_library example_settings True le draw
     (example_call_env 0 0) empty_store ''npc-1'' (example_context (1 / 2)) example_personality
     [] False
     = (empty_store, [CacheGet ''dialogue:npc-1:greeting:0.5:0'', BudgetCheck],
        Inr (mk_response ''Hello there! How are you doing?'' ''neutral'' (1 / 10)))
   \<and> AIManager_generate_dialogue depth example_library example_settings True le draw
        (example_call_env 1 1)
        (fst (AIManager_generate_dialogue depth example_library example_settings True le draw
                (example_call_env 0 0) empty_store ''npc-1'' (example_context (1 / 2))
                example_personality [] False))
        ''npc-1'' (example_context (1 / 2)) example_personality [] False
       = (empty_store, [CacheGet ''dialogue:npc-1:greeting:0.5:0'', BudgetCheck],
          Inr (mk_response ''Hey! Nice to see you!'' ''neutral'' (1 / 10)))"
  by (simp add: installed_generate_cases example_key Let_def get_cached_dialogue_def
      empty_store_def example_call_env_def example_settings_def fallback_pick0 fallback_pick1)

subsection \<open>The validator\<close>

text \<open>
  C5. The validator's final score is the product of the five check factors; severity
  is critical exactly when score < 0.5, error when 0.5 \<le> score < 0.7, warning when
  0.7 \<le> score < 0.9 and info otherwise; and is_valid holds if and only if
  score \<ge> 0.7 and severity is not critical.
\<close>

theorem C5_validator_score_severity:
  "let v = validate_dialogue re_search dialogue ctx traits
   in score v
        = snd (check_canon_violations re_search (dr_text dialogue))
          * snd (check_forbidden_content re_search (dr_text dialogue))
          * snd (check_tone_consistency re_search dialogue ctx traits)
          * snd (check_meta_references re_search (dr_text dialogue))
          * snd (check_mobile_constraints (dr_text dialogue))
      \<and> (severity v = CRITICAL) = (score v < 0.5)
      \<and> (severity v = ERROR) = (0.5 \<le> score v \<and> score v < 0.7)
      \<and> (severity v = WARNING) = (0.7 \<le> score v \<and> score v < 0.9)
      \<and> (severity v = INFO) = (0.9 \<le> score v)
      \<and> is_valid v = (score v \<ge> 0.7 \<and> severity v \<noteq> CRITICAL)"
  by (simp add: validate_dialogue_def Let_def)

theorem C5_witness:
  "score (validate_dialogue example_re_search threatening_reply (example_context (1 / 2))
            (Some example_personality)) = 1 / 2
   \<and> severity (validate_dialogue example_re_search threatening_reply (example_context (1 / 2))
                 (Some example_personality)) = ERROR
   \<and> \<not> is_valid (validate_dialogue example_re_search threatening_reply (example_context (1 / 2))
                    (Some example_personality))"
  using C5_validator_score_severity[of example_re_search threatening_reply "example_context (1 / 2)"
      "Some example_personality"]
  by (simp add: Let_def threat_canon threat_forbidden threat_tone threat_meta threat_mobile)

subsection \<open>The quality gate of the local backend\<close>

text \<open>
  C6. A local response rejected as too generic is claimed to be re-issued to Cloud
  exactly once, after the budget has been rechecked. The router has no budget to check:
  with today's cost at the cap, the local model's reply
  ``Hello there! How are you doing today?'' at relationship level 0.3 is rejected and the
  Cloud manager is called, whatever that manager is. With the Cloud manager the
  repository installs, the orchestrator itself, the reply is replaced by the
  orchestrator's canned line. And the re-issue is not always the last call: it stands
  inside the \<^verbatim>\<open>try\<close>, so when the Cloud manager raises (the installed one does
  on an interaction type that cannot be encoded) it is called a second time.
\<close>

theorem C6_rejected_reply_rerouted_on_exhausted_budget:
  "can_make_request 50 False 0 example_exhausted_store = Inr False
   \<and> take 2 (fst (hybrid_generate_dialogue 0.8
                    \<lparr>he_local = example_local_env True (Inr (Some hello_reply)),
                     he_draw = 1 / 2, he_claude = claude\<rparr>
                    (example_context (3 / 10)) example_personality [] False))
       = [Local, Cloud]
   \<and> hybrid_generate_dialogue 0.8
        (installed_hybrid_env (Suc depth) example_library example_settings
           (example_local_env True (Inr (Some hello_reply))) (1 / 2) (example_call_env 0 0)
           example_exhausted_store ''npc-1'' (example_context (3 / 10)) example_personality [])
        (example_context (3 / 10)) example_personality [] False
       = ([Local, Cloud],
          Inr (mk_response ''Hello there! How are you doing?'' ''neutral'' (1 / 10)))
   \<and> hybrid_generate_dialogue 0.8
        (installed_hybrid_env (Suc depth) example_library example_settings
           (example_local_env True (Inr (Some hello_reply))) (1 / 2) (example_call_env 0 0)
           empty_store ''npc-1'' surrogate_context example_personality [])
        surrogate_context example_personality [] False
       = ([Local, Cloud, Cloud], Inl (UnicodeEncodeError ''surrogates not allowed''))"
proof -
  let ?le = "example_local_env True (Inr (Some hello_reply))"
  have c1: "can_make_request 50 False 0 example_exhausted_store = Inr False"
    by (simp add: can_make_request_def get_redis_def example_exhausted_store_def empty_store_def)
  have use: "should_use_local 0.8 (1 / 2) (example_context (3 / 10)) example_personality []"
    by (simp add: should_use_local_def example_context_def)
  have loc: "local_generate_dialogue ?le (example_context (3 / 10)) example_personality
               = Inr hello_reply"
    by (simp add: local_generate_dialogue_def example_local_env_def)
  have flags: "le_enabled ?le" "le_healthy ?le"
    by (simp_all add: example_local_env_def)
  have c3: "take 2 (fst (hybrid_generate_dialogue 0.8
                           \<lparr>he_local = ?le, he_draw = 1 / 2, he_claude = claude\<rparr>
                           (example_context (3 / 10)) example_personality [] False))
              = [Local, Cloud]"
    using use loc flags hello_reply_rejected
    by (intro rejection_calls_cloud[where response = hello_reply]) simp_all
  have nested:
    "snd (snd (generate_dialogue example_library example_settings
                 (Some (HybridLLMManager 0.8
                          (installed_hybrid_env depth example_library example_settings ?le (1 / 2)
                             (example_call_env 0 0) example_exhausted_store ''npc-1''
                             (example_context (3 / 10)) example_personality [])))
                 (example_call_env 0 0) example_exhausted_store ''npc-1''
                 (example_context (3 / 10)) example_personality [] False))
       = Inr (mk_response ''Hello there! How are you doing?'' ''neutral'' (1 / 10))"
    using installed_generate_cases[of depth example_library example_settings True ?le "1 / 2"
        "example_call_env 0 0" example_exhausted_store "''npc-1''" "example_context (3 / 10)"
        example_personality "[]" False]
    by (simp add: AIManager_generate_dialogue_def example_key_low Let_def get_cached_dialogue_def
        example_exhausted_store_def empty_store_def example_call_env_def example_settings_def
        fallback_pick0)
  have c4: "hybrid_generate_dialogue 0.8
              (installed_hybrid_env (Suc depth) example_library example_settings ?le (1 / 2)
                 (example_call_env 0 0) example_exhausted_store ''npc-1''
                 (example_context (3 / 10)) example_personality [])
              (example_context (3 / 10)) example_personality [] False
            = ([Local, Cloud],
               Inr (mk_response ''Hello there! How are you doing?'' ''neutral'' (1 / 10)))"
    using use loc flags hello_reply_rejected nested
    by (simp add: hybrid_generate_dialogue_def)
  have use': "should_use_local 0.8 (1 / 2) surrogate_context example_personality []"
    by (simp add: should_use_local_def surrogate_context_def example_context_def)
  have loc': "local_generate_dialogue ?le surrogate_context example_personality = Inr hello_reply"
    by (simp add: local_generate_dialogue_def example_local_env_def)
  have raises: "generate_dialogue example_library example_settings hm (example_call_env 0 0)
                  empty_store ''npc-1'' surrogate_context example_personality [] False
                = (empty_store, [], Inl (UnicodeEncodeError ''surrogates not allowed''))" for hm
    using surrogate_context_unencodable
    by (simp add: generate_dialogue_key_error unencodable_interaction_type)
  have c5: "hybrid_generate_dialogue 0.8
              (installed_hybrid_env (Suc depth) example_library example_settings ?le (1 / 2)
                 (example_call_env 0 0) empty_store ''npc-1'' surrogate_context
                 example_personality [])
              surrogate_context example_personality [] False
            = ([Local, Cloud, Cloud], Inl (UnicodeEncodeError ''surrogates not allowed''))"
    using use' loc' flags hello_reply_rejected_surrogate
    by (simp add: hybrid_generate_dialogue_def raises)
  from c1 c3 c4 c5 show ?thesis by blast
qed

subsection \<open>The fallback synthesizers\<close>

text \<open>
  C10. Every response produced by a fallback path (the orchestrator's fallback
  synthesizer and the local adapter's internal fallback) carries
  relationship_change = 0.1, a fixed positive amount, for every context, every
  personality and every random draw.
\<close>

theorem C10_fallback_relationship_change:
  "dr_relationship_change (generate_fallback_dialogue rnd ctx personality) = 0.1
   \<and> dr_relationship_change (create_fallback_response rnd' ctx' personality') = 0.1
   \<and> 0 < dr_relationship_change (generate_fallback_dialogue rnd ctx personality)
   \<and> 0 < dr_relationship_change (create_fallback_response rnd' ctx' personality')"
  by (simp add: generate_fallback_dialogue_def create_fallback_response_def
      mk_response_def Let_def)

end
